theory Spec2Isabelle
  imports Main
begin

section \<open>Data model of repmgr.go\<close>

text \<open>
  The source is the single function \<open>main\<close> of \<open>repmgr.go\<close>. It works on package-level
  variables (\<open>hostList\<close>, \<open>servers\<close>, \<open>slaves\<close>, \<open>master\<close>, \<open>exit\<close>, ...) and on
  \<open>*ServerMonitor\<close> pointers that are shared between \<open>servers\<close>, \<open>slaves\<close> and \<open>master\<close>.
  The model keeps an explicit store: a pointer is an address, the store maps addresses to
  \<open>ServerMonitor\<close> values, and every \<open>newServerMonitor\<close> call allocates a fresh address.
\<close>

subsection \<open>Constants\<close>

definition repmgrVersion :: string where
  "repmgrVersion = ''0.5.0-dev''"

definition STATE_FAILED :: string where
  "STATE_FAILED = ''Failed''"

definition STATE_MASTER :: string where
  "STATE_MASTER = ''Master''"

definition STATE_SLAVE :: string where
  "STATE_SLAVE = ''Slave''"

definition STATE_UNCONN :: string where
  "STATE_UNCONN = ''Unconnected''"

definition switchOptions :: "string list" where
  "switchOptions = [''keep'', ''kill'']"

definition failOptions :: "string list" where
  "failOptions = [''monitor'', ''force'', ''check'']"

subsection \<open>The server monitor\<close>

text \<open>
  The struct \<open>ServerMonitor\<close> is declared outside \<open>repmgr.go\<close>; these are the fields
  that \<open>main\<close> reads or writes. \<open>ServerId\<close> and \<open>MasterServerId\<close> are only compared with
  \<open>==\<close>, so their width does not matter here. The connection handle \<open>Conn\<close> is opaque;
  \<open>main\<close> only defers its \<open>Close\<close>.
\<close>

record ServerMonitor =
  URL :: string
  Host :: string
  Port :: string
  IP :: string
  State :: string
  ServerId :: nat
  MasterServerId :: nat
  MasterHost :: string
  UsingGtid :: string

type_synonym ptr = nat

subsection \<open>Command line flags\<close>

text \<open>
  The flags that \<open>main\<close> consults after \<open>flag.Parse()\<close>. The remaining flags (\<open>socket\<close>,
  \<open>maxdelay\<close>, \<open>gtidcheck\<close>, \<open>wait-kill\<close>, \<open>readonly\<close>, the script paths) are read only
  by code outside \<open>repmgr.go\<close>.
\<close>

record config =
  version :: bool
  user :: string
  hosts :: string
  rpluser :: string
  interactive :: bool
  verbose :: bool
  prefMaster :: string
  ignoreSrv :: string
  failover :: string
  switchover :: string

subsection \<open>Observable actions\<close>

text \<open>
  Everything \<open>main\<close> does to the outside is appended to a trace, in program order:
  printed lines (format string and arguments, not rendered), calls into the node monitor,
  the terminal library and the clock.
\<close>

datatype fmtarg = ArgS string | ArgI int

datatype action =
    Println "string list"
  | Printf string "fmtarg list"
  | Logprintf string "fmtarg list"
  | CallNewServerMonitor string
  | CallRefresh ptr
  | CallIsSlaveof ptr ptr
  | CallFailover ptr
  | CallSwitchover ptr
  | ConnClose ptr
  | TermboxInit
  | TermboxClose
  | TermboxSync
  | NewTermLog nat
  | TlogAdd string
  | Display
  | NewTicker nat
  | Sleep nat

subsection \<open>Program state\<close>

text \<open>
  The package-level variables, the store, the list of deferred \<open>Conn.Close()\<close> calls, the
  local \<open>command\<close> of the monitoring block, the state of the outside world and the trace.
  \<open>servers\<close> is created by \<open>make\<close> with every entry \<open>nil\<close>, hence the option. The
  variables \<open>vy\<close> and \<open>failCount\<close> are not used by \<open>main\<close>; \<open>tlog\<close> is only written
  (see \<open>NewTermLog\<close> and \<open>TlogAdd\<close>).
\<close>

record 'w state =
  hostList :: "string list"
  servers :: "ptr option list"
  slaves :: "ptr list"
  master :: "ptr option"
  exit :: bool
  dbUser :: string
  dbPass :: string
  rplUser :: string
  rplPass :: string
  ignoreList :: "string list"
  command :: string
  heap :: "ptr \<Rightarrow> ServerMonitor"
  nextp :: ptr
  deferred :: "ptr list"
  world :: 'w
  trace :: "action list"

text \<open>How a stretch of \<open>main\<close> ends.\<close>

datatype outcome =
    Ok                \<comment> \<open>control reaches the next statement\<close>
  | Goto_MainLoop     \<comment> \<open>\<open>goto MainLoop\<close>\<close>
  | Returned          \<comment> \<open>\<open>main\<close> returns, the process ends normally\<close>
  | Waiting           \<comment> \<open>blocked in \<open>select\<close>: no further event in the given prefix\<close>
  | Fatal string      \<comment> \<open>\<open>log.Fatal\<close>: the message is printed, the process exits at once\<close>
  | Panic string      \<comment> \<open>run-time panic\<close>

subsection \<open>The collaborators of \<open>main\<close>\<close>

text \<open>
  \<open>main\<close> calls functions that live outside \<open>repmgr.go\<close>. They are parameters of the
  model. Those that talk to a database server or to the terminal take the state of the
  world and return the new one, so the same call may answer differently later.

  \<^item> \<open>newServerMonitor url\<close> returns a monitor and whether \<open>err\<close> is not \<open>nil\<close>. \<open>main\<close>
    dereferences the monitor also when \<open>err\<close> is set, so the pointer is never \<open>nil\<close>.
  \<^item> \<open>refresh\<close> rewrites the monitor it is called on.
  \<^item> \<open>hasSiblings sl slaves\<close> is a test on the monitors' recorded facts.
  \<^item> \<open>IsSlaveof\<close> is \<open>dbhelper.IsSlaveof(sl.Conn, sl.Host, master.IP)\<close>.
  \<^item> \<open>do_failover\<close> and \<open>do_switchover\<close> are the methods \<open>failover()\<close> and
    \<open>switchover()\<close> of the master; they return a URL and an index (a Go \<open>int\<close>).
  \<^item> \<open>termbox_Init\<close> returns the error of \<open>termbox.Init()\<close>, if any.
\<close>

text \<open>
  Modelled from the spec: \<open>failover()\<close>, \<open>switchover()\<close> and \<open>display()\<close> are declared
  outside \<open>repmgr.go\<close>. By the spec \<open>failover\<close> and \<open>switchover\<close> return the identity of
  the new master and the index of the promoted slave, or an empty result, and the redraw
  of a tick does not change the topology. So in the model the three act on the world
  only: the variables of the program and the monitors are written by \<open>main\<close> alone.
\<close>

record 'w env =
  splitPair :: "string \<Rightarrow> string \<times> string"
  newServerMonitor :: "string \<Rightarrow> 'w \<Rightarrow> (ServerMonitor \<times> bool) \<times> 'w"
  refresh :: "ServerMonitor \<Rightarrow> 'w \<Rightarrow> ServerMonitor \<times> 'w"
  hasSiblings :: "ServerMonitor \<Rightarrow> ServerMonitor list \<Rightarrow> bool"
  IsSlaveof :: "ServerMonitor \<Rightarrow> string \<Rightarrow> string \<Rightarrow> 'w \<Rightarrow> bool \<times> 'w"
  do_failover :: "ServerMonitor \<Rightarrow> 'w \<Rightarrow> (string \<times> int) \<times> 'w"
  do_switchover :: "ServerMonitor \<Rightarrow> 'w \<Rightarrow> (string \<times> int) \<times> 'w"
  display :: "'w \<Rightarrow> 'w"
  termbox_Init :: "'w \<Rightarrow> string option \<times> 'w"

text \<open>Events delivered to the \<open>select\<close> of the monitoring loop.\<close>

datatype EventType = EventKey | EventResize | EventMouse | EventError | EventInterrupt | EventRaw | EventNone

datatype Key = KeyCtrlS | KeyCtrlF | KeyCtrlQ | KeyOther nat

datatype event =
    Tick                          \<comment> \<open>\<open><-ticker.C\<close>\<close>
  | TbEvent EventType Key char    \<comment> \<open>\<open>event := <-termboxChan\<close> with \<open>Type\<close>, \<open>Key\<close>, \<open>Ch\<close>\<close>

text \<open>
  Modelled from the spec: the method \<open>hasSiblings\<close> is declared outside \<open>repmgr.go\<close>. The
  spec calls siblinghood "the property that two slave nodes replicate from the same
  upstream identity", and the upstream identity the locator goes by is the server id of
  the master that a slave records.
\<close>

definition hasSiblings_spec :: "ServerMonitor \<Rightarrow> ServerMonitor list \<Rightarrow> bool" where
  "hasSiblings_spec sm sib = list_all (\<lambda>sl. MasterServerId sm = MasterServerId sl) sib"

section \<open>Small helpers\<close>

definition emit :: "action \<Rightarrow> 'w state \<Rightarrow> 'w state" where
  "emit a st = st\<lparr>trace := trace st @ [a]\<rparr>"

definition set_State :: "ptr \<Rightarrow> string \<Rightarrow> 'w state \<Rightarrow> 'w state" where
  "set_State p s st = st\<lparr>heap := (heap st)(p := (heap st p)\<lparr>State := s\<rparr>)\<rparr>"

text \<open>\<open>strings.Split(s, sep)\<close> for a separator of one byte (\<open>main\<close> only splits on \<open>","\<close>).\<close>

fun Split :: "string \<Rightarrow> char \<Rightarrow> string list" where
  "Split [] c = [[]]"
| "Split (x # xs) c =
     (if x = c then [] # Split xs c
      else (case Split xs c of
              [] \<Rightarrow> [[x]]
            | y # ys \<Rightarrow> (x # y) # ys))"

text \<open>
  Modelled from the spec: \<open>contains\<close> is declared outside \<open>repmgr.go\<close>; the spec has the
  mode value checked for membership in the list of admissible values.
\<close>

fun contains :: "string list \<Rightarrow> string \<Rightarrow> bool" where
  "contains [] s = False"
| "contains (x # xs) s = (if x = s then True else contains xs s)"

text \<open>Run the stretches of \<open>main\<close> one after the other until one does not end in \<open>Ok\<close>.\<close>

fun run_phases :: "('s \<Rightarrow> outcome \<times> 's) list \<Rightarrow> 's \<Rightarrow> outcome \<times> 's" where
  "run_phases [] s = (Ok, s)"
| "run_phases (f # fs) s =
     (case f s of
        (Ok, s') \<Rightarrow> run_phases fs s'
      | r \<Rightarrow> r)"

section \<open>\<open>main\<close>, lines 67 to 103: flags\<close>

definition parse_flags :: "config \<Rightarrow> 'w env \<Rightarrow> 'w state \<Rightarrow> outcome \<times> 'w state" where
  "parse_flags cfg env st0 =
     (let st1 = (if version cfg = True
                 then emit (Println [''MariaDB Replication Manager version'', repmgrVersion]) st0
                 else st0)
      in if hosts cfg = [] then (Fatal ''ERROR: No hosts list specified.'', st1)
      else let st2 = st1\<lparr>hostList := Split (hosts cfg) (CHR '','')\<rparr>
      in if user cfg = [] then (Fatal ''ERROR: No master user/pair specified.'', st2)
      else let st3 = st2\<lparr>dbUser := fst (splitPair env (user cfg)),
                         dbPass := snd (splitPair env (user cfg))\<rparr>
      in if rpluser cfg = [] then (Fatal ''ERROR: No replication user/pair specified.'', st3)
      else let st4 = st3\<lparr>rplUser := fst (splitPair env (rpluser cfg)),
                         rplPass := snd (splitPair env (rpluser cfg))\<rparr>
      in if switchover cfg = [] \<and> failover cfg = []
         then (Fatal ''ERROR: None of the switchover or failover modes are set.'', st4)
      else if switchover cfg \<noteq> [] \<and> failover cfg \<noteq> []
         then (Fatal ''ERROR: Both switchover and failover modes are set.'', st4)
      else if \<not> contains failOptions (failover cfg) \<and> failover cfg \<noteq> []
         then (Fatal (''ERROR: Incorrect failover mode: '' @ failover cfg), st4)
      else if \<not> contains switchOptions (switchover cfg) \<and> switchover cfg \<noteq> []
         then (Fatal (''ERROR: Incorrect switchover mode: '' @ switchover cfg), st4)
      else (Ok, if ignoreSrv cfg \<noteq> []
                then st4\<lparr>ignoreList := Split (ignoreSrv cfg) (CHR '','')\<rparr>
                else st4))"

section \<open>\<open>main\<close>, lines 105 to 138: classification\<close>

text \<open>
  A call \<open>newServerMonitor(url)\<close>: the monitor it returns is stored at a fresh address.
  The result is that address and whether \<open>err\<close> is set.
\<close>

definition new_monitor :: "'w env \<Rightarrow> string \<Rightarrow> 'w state \<Rightarrow> (ptr \<times> bool) \<times> 'w state" where
  "new_monitor env url st =
     (let r = newServerMonitor env url (world st)
      in ((nextp st, snd (fst r)),
          (emit (CallNewServerMonitor url) st)
            \<lparr>world := snd r, heap := (heap st)(nextp st := fst (fst r)),
             nextp := Suc (nextp st)\<rparr>))"

text \<open>The method call \<open>p.refresh()\<close>.\<close>

definition call_refresh :: "'w env \<Rightarrow> ptr \<Rightarrow> 'w state \<Rightarrow> 'w state" where
  "call_refresh env p st =
     (let r = refresh env (heap st p) (world st)
      in (emit (CallRefresh p) st)\<lparr>world := snd r, heap := (heap st)(p := fst r)\<rparr>)"

text \<open>
  One pass of the loop over \<open>hostList\<close>. The local \<open>slaveCount\<close> is incremented with every
  slave and never read; it is left out.
\<close>

definition classify_host :: "config \<Rightarrow> 'w env \<Rightarrow> nat \<Rightarrow> string \<Rightarrow> 'w state \<Rightarrow> 'w state" where
  "classify_host cfg env k url st =
     (let p = fst (fst (new_monitor env url st));
          err = snd (fst (new_monitor env url st));
          st0 = snd (new_monitor env url st);
          st1 = st0\<lparr>servers := (servers st0)[k := Some p]\<rparr>;
          st2 = (if verbose cfg
                 then emit (Printf ''DEBUG: Creating new server: %v'' [ArgS (URL (heap st1 p))]) st1
                 else st1)
      in if err
         then set_State p STATE_FAILED
                (emit (Printf ''INFO : Server %s is dead.'' [ArgS (URL (heap st2 p))]) st2)
         else
           let st3 = st2\<lparr>deferred := p # deferred st2\<rparr>;
               st4 = (if verbose cfg
                      then emit (Printf ''DEBUG: Checking if server %s is slave''
                                   [ArgS (URL (heap st3 p))]) st3
                      else st3);
               st5 = call_refresh env p st4
           in if UsingGtid (heap st5 p) \<noteq> []
              then
                let st6 = (if verbose cfg
                           then emit (Printf ''DEBUG: Server %s is configured as a slave''
                                        [ArgS (URL (heap st5 p))]) st5
                           else st5);
                    st7 = set_State p STATE_SLAVE st6
                in st7\<lparr>slaves := slaves st7 @ [p]\<rparr>
              else
                (if verbose cfg
                 then emit (Printf ''DEBUG: Server %s is not a slave. Setting aside''
                              [ArgS (URL (heap st5 p))]) st5
                 else st5))"

fun classify_from :: "config \<Rightarrow> 'w env \<Rightarrow> nat \<Rightarrow> string list \<Rightarrow> 'w state \<Rightarrow> 'w state" where
  "classify_from cfg env k [] st = st"
| "classify_from cfg env k (url # urls) st =
     classify_from cfg env (Suc k) urls (classify_host cfg env k url st)"

definition classify :: "config \<Rightarrow> 'w env \<Rightarrow> 'w state \<Rightarrow> outcome \<times> 'w state" where
  "classify cfg env st =
     (let hostCount = length (hostList st);
          st1 = st\<lparr>servers := replicate hostCount None\<rparr>
      in (Ok, classify_from cfg env 0 (hostList st1) st1))"

section \<open>\<open>main\<close>, lines 140 to 145: all slaves have the same master\<close>

fun check_siblings_loop :: "'w env \<Rightarrow> ptr list \<Rightarrow> 'w state \<Rightarrow> outcome \<times> 'w state" where
  "check_siblings_loop env [] st = (Ok, st)"
| "check_siblings_loop env (sl # rest) st =
     (if hasSiblings env (heap st sl) (map (heap st) (slaves st)) = False
      then (Fatal ''ERROR: Multi-master topologies are not yet supported.'', st)
      else check_siblings_loop env rest st)"

definition check_siblings :: "'w env \<Rightarrow> 'w state \<Rightarrow> outcome \<times> 'w state" where
  "check_siblings env st = check_siblings_loop env (slaves st) st"

section \<open>\<open>main\<close>, lines 147 to 183: finding the master\<close>

definition nil_deref :: string where
  "nil_deref = ''runtime error: invalid memory address or nil pointer dereference''"

definition index_out_of_range :: string where
  "index_out_of_range = ''runtime error: index out of range''"

definition slice_out_of_range :: string where
  "slice_out_of_range = ''runtime error: slice bounds out of range''"

text \<open>
  \<open>master = servers[k]; master.State = STATE_MASTER\<close> and the log line. The loop variable
  \<open>s\<close> is a copy of \<open>servers[k]\<close>, the same pointer.
\<close>

definition elect :: "config \<Rightarrow> ptr \<Rightarrow> 'w state \<Rightarrow> 'w state" where
  "elect cfg s st =
     (let st1 = set_State s STATE_MASTER (st\<lparr>master := Some s\<rparr>)
      in if verbose cfg
         then emit (Printf ''DEBUG: Server %s was autodetected as a master''
                      [ArgS (URL (heap st1 s))]) st1
         else st1)"

text \<open>The loop of lines 152 to 163, over the rest of \<open>servers\<close>; \<open>break\<close> ends it.\<close>

fun scan_unconn :: "config \<Rightarrow> nat \<Rightarrow> ptr option list \<Rightarrow> 'w state \<Rightarrow> outcome \<times> 'w state" where
  "scan_unconn cfg sid [] st = (Ok, st)"
| "scan_unconn cfg sid (None # ss) st = (Panic nil_deref, st)"
| "scan_unconn cfg sid (Some s # ss) st =
     (if State (heap st s) = STATE_UNCONN
      then (if ServerId (heap st s) = sid
            then (Ok, elect cfg s st)
            else scan_unconn cfg sid ss st)
      else scan_unconn cfg sid ss st)"

text \<open>The loop of lines 167 to 178.\<close>

fun scan_failed :: "config \<Rightarrow> string \<Rightarrow> ptr option list \<Rightarrow> 'w state \<Rightarrow> outcome \<times> 'w state" where
  "scan_failed cfg smh [] st = (Ok, st)"
| "scan_failed cfg smh (None # ss) st = (Panic nil_deref, st)"
| "scan_failed cfg smh (Some s # ss) st =
     (if State (heap st s) = STATE_FAILED
      then (if Host (heap st s) = smh \<or> IP (heap st s) = smh
            then (Ok, elect cfg s st)
            else scan_failed cfg smh ss st)
      else scan_failed cfg smh ss st)"

text \<open>\<open>slaves[0]\<close> panics when \<open>slaves\<close> is empty.\<close>

definition locate_master :: "config \<Rightarrow> 'w state \<Rightarrow> outcome \<times> 'w state" where
  "locate_master cfg st =
     (if switchover cfg \<noteq> [] \<or> failover cfg = ''monitor''
      then (case slaves st of
              [] \<Rightarrow> (Panic index_out_of_range, st)
            | s0 # _ \<Rightarrow> scan_unconn cfg (MasterServerId (heap st s0)) (servers st) st)
      else (case slaves st of
              [] \<Rightarrow> (Panic index_out_of_range, st)
            | s0 # _ \<Rightarrow> scan_failed cfg (MasterHost (heap st s0)) (servers st) st))"

definition check_master :: "'w state \<Rightarrow> outcome \<times> 'w state" where
  "check_master st =
     (if master st = None
      then (Fatal ''ERROR: Could not autodetect a master!'', st)
      else (Ok, st))"

section \<open>\<open>main\<close>, lines 185 to 192: is every slave a slave of the master\<close>

definition check_slave :: "config \<Rightarrow> 'w env \<Rightarrow> ptr \<Rightarrow> ptr \<Rightarrow> 'w state \<Rightarrow> 'w state" where
  "check_slave cfg env mp sl st =
     (let st1 = (if verbose cfg
                 then emit (Printf ''DEBUG: Checking if server %s is a slave of server %s''
                              [ArgS (Host (heap st sl)), ArgS (Host (heap st mp))]) st
                 else st);
          r = IsSlaveof env (heap st1 sl) (Host (heap st1 sl)) (IP (heap st1 mp)) (world st1);
          st2 = (emit (CallIsSlaveof sl mp) st1)\<lparr>world := snd r\<rparr>
      in if fst r = False
         then emit (Printf ''WARN : Server %s is not a slave of declared master %s''
                      [ArgS (URL (heap st2 mp)), ArgS (Host (heap st2 mp))]) st2
         else st2)"

fun check_slaves_loop :: "config \<Rightarrow> 'w env \<Rightarrow> ptr \<Rightarrow> ptr list \<Rightarrow> 'w state \<Rightarrow> 'w state" where
  "check_slaves_loop cfg env mp [] st = st"
| "check_slaves_loop cfg env mp (sl # rest) st =
     check_slaves_loop cfg env mp rest (check_slave cfg env mp sl st)"

definition check_slaves :: "config \<Rightarrow> 'w env \<Rightarrow> 'w state \<Rightarrow> outcome \<times> 'w state" where
  "check_slaves cfg env st =
     (case master st of
        None \<Rightarrow> (if slaves st = [] then (Ok, st) else (Panic nil_deref, st))
      | Some mp \<Rightarrow> (Ok, check_slaves_loop cfg env mp (slaves st) st))"

section \<open>\<open>main\<close>, lines 194 to 205: the preferred master\<close>

text \<open>The closure \<open>ret\<close>.\<close>

fun ret :: "string list \<Rightarrow> string \<Rightarrow> bool" where
  "ret [] pm = False"
| "ret (v # vs) pm = (if v = pm then True else ret vs pm)"

definition check_prefMaster :: "config \<Rightarrow> 'w state \<Rightarrow> outcome \<times> 'w state" where
  "check_prefMaster cfg st =
     (if ret (hostList st) (prefMaster cfg) = False \<and> prefMaster cfg \<noteq> []
      then (Fatal ''ERROR: Preferred master is not included in the hosts option'', st)
      else (Ok, st))"

section \<open>\<open>main\<close>, lines 207 to 283: failover, switchover or the monitor\<close>

text \<open>
  When \<open>main\<close> returns, the deferred \<open>Conn.Close()\<close> calls run, last deferred first. They do
  not run after \<open>log.Fatal\<close>. The deferred calls that run while the process panics are not
  recorded: the trace of a panic ends where the panic is raised.
\<close>

definition run_deferred :: "'w state \<Rightarrow> 'w state" where
  "run_deferred st = st\<lparr>trace := trace st @ map ConnClose (deferred st)\<rparr>"

text \<open>Line 215 to 228, from the label \<open>MainLoop\<close> to the head of the \<open>for\<close> loop.\<close>

definition MainLoop :: "config \<Rightarrow> 'w env \<Rightarrow> 'w state \<Rightarrow> outcome \<times> 'w state" where
  "MainLoop cfg env st =
     (let r = termbox_Init env (world st);
          st1 = (emit TermboxInit st)\<lparr>world := snd r\<rparr>
      in case fst r of
           Some e \<Rightarrow> (Fatal (''Termbox initialization error '' @ e), st1)
         | None \<Rightarrow>
             let st2 = emit (NewTermLog 20) st1;
                 st3 = (if failover cfg \<noteq> []
                        then emit (TlogAdd ''Monitor started in failover mode'') st2
                        else emit (TlogAdd ''Monitor started in switchover mode'') st2);
                 st4 = emit (NewTicker 3) st3
             in (Ok, st4\<lparr>command := []\<rparr>))"

text \<open>
  Lines 236 to 245, the key Ctrl-S. In \<open>slaves[nsKey], err = newServerMonitor(slaves[nsKey].URL)\<close>
  the argument is evaluated before the call, so an index beyond the list panics
  before the second monitor is created.
\<close>

definition on_CtrlS :: "config \<Rightarrow> 'w env \<Rightarrow> 'w state \<Rightarrow> outcome \<times> 'w state" where
  "on_CtrlS cfg env st =
     (case master st of
        None \<Rightarrow> (Panic nil_deref, st)
      | Some mp \<Rightarrow>
          let r = do_switchover env (heap st mp) (world st);
              nmUrl = fst (fst r);
              nsKey = snd (fst r);
              st1 = (emit (CallSwitchover mp) st)\<lparr>world := snd r\<rparr>
          in if nmUrl \<noteq> [] \<and> nsKey \<ge> 0
             then
               (if verbose cfg \<and> \<not> nat nsKey < length (slaves st1)
                then (Panic index_out_of_range, st1)
                else
                  let st2 = (if verbose cfg
                             then emit (Logprintf
                                          ''DEBUG: Reinstancing new master: %s and new slave: %s [%d]''
                                          [ArgS nmUrl, ArgS (URL (heap st1 (slaves st1 ! nat nsKey))),
                                           ArgI nsKey]) st1
                             else st1);
                      st3 = (snd (new_monitor env nmUrl st2))
                              \<lparr>master := Some (fst (fst (new_monitor env nmUrl st2)))\<rparr>
                  in if \<not> nat nsKey < length (slaves st3)
                     then (Panic index_out_of_range, st3)
                     else
                       let url = URL (heap st3 (slaves st3 ! nat nsKey));
                           st4 = snd (new_monitor env url st3)
                       in (Ok, st4\<lparr>slaves := (slaves st4)
                                     [nat nsKey := fst (fst (new_monitor env url st3))]\<rparr>))
             else (Ok, st1))"

text \<open>Lines 235 to 253, \<open>case termbox.EventKey\<close>: three \<open>if\<close>s in a row.\<close>

definition key_pressed :: "config \<Rightarrow> 'w env \<Rightarrow> Key \<Rightarrow> 'w state \<Rightarrow> outcome \<times> 'w state" where
  "key_pressed cfg env key st =
     (case (if key = KeyCtrlS then on_CtrlS cfg env st else (Ok, st)) of
        (Ok, st1) \<Rightarrow>
          let st2 = (if key = KeyCtrlF then st1\<lparr>command := ''failover'', exit := True\<rparr> else st1);
              st3 = (if key = KeyCtrlQ then st2\<lparr>exit := True\<rparr> else st2)
          in (Ok, st3)
      | r \<Rightarrow> r)"

text \<open>Lines 230 to 258, the \<open>select\<close>.\<close>

definition select_case :: "config \<Rightarrow> 'w env \<Rightarrow> event \<Rightarrow> 'w state \<Rightarrow> outcome \<times> 'w state" where
  "select_case cfg env ev st =
     (case ev of
        Tick \<Rightarrow> (Ok, (emit Display st)\<lparr>world := display env (world st)\<rparr>)
      | TbEvent ty key ch \<Rightarrow>
          (case (if ty = EventKey then key_pressed cfg env key st else (Ok, st)) of
             (Ok, st1) \<Rightarrow> (Ok, if ch = CHR ''s'' then emit TermboxSync st1 else st1)
           | r \<Rightarrow> r))"

text \<open>Lines 259 to 262, at the end of every pass of the loop.\<close>

definition failure_check :: "config \<Rightarrow> 'w state \<Rightarrow> outcome \<times> 'w state" where
  "failure_check cfg st =
     (case master st of
        None \<Rightarrow> (Panic nil_deref, st)
      | Some mp \<Rightarrow>
          (Ok, if State (heap st mp) = STATE_FAILED \<and> interactive cfg = False
               then st\<lparr>command := ''failover'', exit := True\<rparr>
               else st))"

text \<open>One pass of the loop \<open>for exit == false\<close>, for the event that \<open>select\<close> receives.\<close>

definition loop_body :: "config \<Rightarrow> 'w env \<Rightarrow> event \<Rightarrow> 'w state \<Rightarrow> outcome \<times> 'w state" where
  "loop_body cfg env ev st = run_phases [select_case cfg env ev, failure_check cfg] st"

text \<open>
  Lines 264 to 281, after the loop. \<open>append(slaves[:nmKey], slaves[nmKey+1:]...)\<close> panics
  unless \<open>0 \<le> nmKey < len(slaves)\<close>; otherwise it is the list without its entry \<open>nmKey\<close>.
\<close>

definition after_loop :: "config \<Rightarrow> 'w env \<Rightarrow> 'w state \<Rightarrow> outcome \<times> 'w state" where
  "after_loop cfg env st =
     (if command st = ''failover''
      then
        let st1 = emit TermboxClose st
        in (case master st1 of
              None \<Rightarrow> (Panic nil_deref, st1)
            | Some mp \<Rightarrow>
                let r = do_failover env (heap st1 mp) (world st1);
                    nmUrl = fst (fst r);
                    nmKey = snd (fst r);
                    st2 = (emit (CallFailover mp) st1)\<lparr>world := snd r\<rparr>
                in (case (if nmUrl \<noteq> []
                          then
                            let st3 = (if verbose cfg
                                       then emit (Printf ''DEBUG: Reinstancing new master: %s''
                                                    [ArgS nmUrl]) st2
                                       else st2);
                                st4 = (snd (new_monitor env nmUrl st3))
                                        \<lparr>master := Some (fst (fst (new_monitor env nmUrl st3)))\<rparr>
                            in if 0 \<le> nmKey \<and> nat nmKey < length (slaves st4)
                               then (Ok, st4\<lparr>slaves := take (nat nmKey) (slaves st4)
                                                       @ drop (nat nmKey + 1) (slaves st4)\<rparr>)
                               else (Panic slice_out_of_range, st4)
                          else (Ok, st2)) of
                      (Ok, st5) \<Rightarrow>
                        let st6 = emit (Println
                                     [''###### Restarting monitor console in 5 seconds. Press Ctrl-C to exit''])
                                     st5;
                            st7 = emit (Sleep 5) st6
                        in (Goto_MainLoop, st7\<lparr>exit := False\<rparr>)
                    | r \<Rightarrow> r))
      else (Returned, run_deferred (emit TermboxClose st)))"

text \<open>
  The loop \<open>for exit == false\<close> together with what follows it, on the events that arrive.
  After \<open>goto MainLoop\<close> the block starts again at the label and the loop is entered anew
  with the events that are left.
\<close>

lemma after_loop_Goto_exit:
  "after_loop cfg env st = (Goto_MainLoop, st2) \<Longrightarrow> exit st2 = False"
  by (auto simp: after_loop_def Let_def split: if_splits option.splits prod.splits outcome.splits)

lemma MainLoop_Ok_exit:
  "MainLoop cfg env st2 = (Ok, st3) \<Longrightarrow> exit st3 = exit st2"
  by (auto simp: MainLoop_def Let_def emit_def split: option.splits if_splits)

function for_loop :: "config \<Rightarrow> 'w env \<Rightarrow> event list \<Rightarrow> 'w state \<Rightarrow> outcome \<times> 'w state" where
  "for_loop cfg env evs st =
     (if exit st = False
      then (case evs of
              [] \<Rightarrow> (Waiting, st)
            | ev # evs' \<Rightarrow>
                (case loop_body cfg env ev st of
                   (Ok, st1) \<Rightarrow> for_loop cfg env evs' st1
                 | r \<Rightarrow> r))
      else (case after_loop cfg env st of
              (Goto_MainLoop, st2) \<Rightarrow>
                (case MainLoop cfg env st2 of
                   (Ok, st3) \<Rightarrow> for_loop cfg env evs st3
                 | r \<Rightarrow> r)
            | r \<Rightarrow> r))"
  by pat_completeness auto

termination
  apply (relation "measure (\<lambda>(cfg, env, evs, st). 2 * length evs + (if exit st then 1 else 0))")
    apply simp
   apply simp
  apply (auto dest: after_loop_Goto_exit [OF sym] MainLoop_Ok_exit [OF sym])
  done

declare for_loop.simps [simp del]

text \<open>Lines 209 to 283.\<close>

definition dispatch :: "config \<Rightarrow> 'w env \<Rightarrow> event list \<Rightarrow> 'w state \<Rightarrow> outcome \<times> 'w state" where
  "dispatch cfg env evs st =
     (if failover cfg = ''force''
      then (case master st of
              None \<Rightarrow> (Panic nil_deref, st)
            | Some mp \<Rightarrow>
                (Returned,
                 run_deferred ((emit (CallFailover mp) st)
                                 \<lparr>world := snd (do_failover env (heap st mp) (world st))\<rparr>)))
      else if switchover cfg \<noteq> [] \<and> interactive cfg = False
      then (case master st of
              None \<Rightarrow> (Panic nil_deref, st)
            | Some mp \<Rightarrow>
                (Returned,
                 run_deferred ((emit (CallSwitchover mp) st)
                                 \<lparr>world := snd (do_switchover env (heap st mp) (world st))\<rparr>)))
      else run_phases [MainLoop cfg env, for_loop cfg env evs] st)"

section \<open>\<open>main\<close>\<close>

text \<open>The zero value of the struct and the state of the package at the start.\<close>

definition zero_monitor :: ServerMonitor where
  "zero_monitor =
     \<lparr>URL = [], Host = [], Port = [], IP = [], State = [], ServerId = 0,
      MasterServerId = 0, MasterHost = [], UsingGtid = []\<rparr>"

definition init_state :: "'w \<Rightarrow> 'w state" where
  "init_state w =
     \<lparr>hostList = [], servers = [], slaves = [], master = None, exit = False,
      dbUser = [], dbPass = [], rplUser = [], rplPass = [], ignoreList = [],
      command = [], heap = (\<lambda>p. zero_monitor), nextp = 0, deferred = [],
      world = w, trace = []\<rparr>"

text \<open>
  \<open>main\<close> on the parsed flags, with the collaborators \<open>env\<close>, the events \<open>evs\<close> that reach
  the monitoring loop and the world \<open>w\<close> at the start.
\<close>

definition main_phases :: "config \<Rightarrow> 'w env \<Rightarrow> event list \<Rightarrow> ('w state \<Rightarrow> outcome \<times> 'w state) list" where
  "main_phases cfg env evs =
     [parse_flags cfg env, classify cfg env, check_siblings env, locate_master cfg,
      check_master, check_slaves cfg env, check_prefMaster cfg, dispatch cfg env evs]"

definition main :: "config \<Rightarrow> 'w env \<Rightarrow> event list \<Rightarrow> 'w \<Rightarrow> outcome \<times> 'w state" where
  "main cfg env evs w = run_phases (main_phases cfg env evs) (init_state w)"

section \<open>What the spec says of the node monitor\<close>

text \<open>
  Modelled from the spec: \<open>newServerMonitor\<close> and \<open>refresh\<close> are declared outside
  \<open>repmgr.go\<close>, and \<open>main\<close> never writes the state \<open>Unconnected\<close> itself. By the spec a
  node that could be connected and is no slave is left as Unconnected, and a refresh
  updates the replication facts of a node: a monitor that was connected comes back in
  state \<open>Unconnected\<close>, and \<open>refresh\<close> does not touch \<open>State\<close>.
\<close>

definition node_monitor_contract :: "'w env \<Rightarrow> bool" where
  "node_monitor_contract env \<longleftrightarrow>
     (\<forall>url w. \<not> snd (fst (newServerMonitor env url w)) \<longrightarrow>
               State (fst (fst (newServerMonitor env url w))) = STATE_UNCONN)
     \<and> (\<forall>m w. State (fst (refresh env m w)) = State m)"

text \<open>
  The three classes after classification: dead, slave (replication configured) and
  unconnected (no replication configured).
\<close>

definition classified :: "ServerMonitor \<Rightarrow> bool" where
  "classified m \<longleftrightarrow>
     State m = STATE_FAILED
     \<or> (State m = STATE_SLAVE \<and> UsingGtid m \<noteq> [])
     \<or> (State m = STATE_UNCONN \<and> UsingGtid m = [])"


section \<open>A small installation, for concrete runs\<close>

text \<open>
  Three hosts \<open>h1\<close>, \<open>h2\<close>, \<open>h3\<close> with server ids 100, 101 and 102. \<open>h2\<close> and \<open>h3\<close> replicate
  from \<open>h1\<close>. The hosts in \<open>dead\<close> refuse the connection; \<open>res\<close> is what \<open>failover()\<close> and
  \<open>switchover()\<close> answer.
\<close>

definition ex_monitor :: "string \<Rightarrow> ServerMonitor" where
  "ex_monitor url =
     \<lparr>URL = url, Host = url, Port = ''3306'', IP = url, State = STATE_UNCONN,
      ServerId = (if url = ''h1'' then 100 else if url = ''h2'' then 101 else 102),
      MasterServerId = 0, MasterHost = [], UsingGtid = []\<rparr>"

definition ex_env :: "string list \<Rightarrow> (string \<times> int) \<Rightarrow> unit env" where
  "ex_env dead res =
     \<lparr>splitPair = (\<lambda>s. (s, [])),
      newServerMonitor = (\<lambda>url w. ((ex_monitor url, url \<in> set dead), w)),
      refresh = (\<lambda>m w. (if URL m = ''h1'' then m
                         else m\<lparr>MasterServerId := 100, MasterHost := ''h1'',
                                UsingGtid := ''Slave_Pos''\<rparr>, w)),
      hasSiblings = hasSiblings_spec,
      IsSlaveof = (\<lambda>m h i w. (True, w)),
      do_failover = (\<lambda>m w. (res, w)),
      do_switchover = (\<lambda>m w. (res, w)),
      display = (\<lambda>w. w),
      termbox_Init = (\<lambda>w. (None, w))\<rparr>"

definition ex_cfg :: "string \<Rightarrow> string \<Rightarrow> bool \<Rightarrow> config" where
  "ex_cfg fo so ia =
     \<lparr>version = False, user = ''root:pw'', hosts = ''h1,h2,h3'', rpluser = ''repl:pw'',
      interactive = ia, verbose = False, prefMaster = [], ignoreSrv = [],
      failover = fo, switchover = so\<rparr>"

text \<open>The same installation as a chain: every slave names the server before it as its master.\<close>

definition ex_env_chain :: "unit env" where
  "ex_env_chain =
     (ex_env [] ([], -1))
       \<lparr>refresh := (\<lambda>m w. (if URL m = ''h1'' then m
                                else m\<lparr>MasterServerId := ServerId m - 1, MasterHost := ''h1'',
                                       UsingGtid := ''Slave_Pos''\<rparr>, w))\<rparr>"

definition ex_chain_classified :: "unit state" where
  "ex_chain_classified =
     snd (run_phases [parse_flags (ex_cfg ''monitor'' [] True) ex_env_chain,
                      classify (ex_cfg ''monitor'' [] True) ex_env_chain] (init_state ()))"

text \<open>The state of the installation after the flags and the classification.\<close>

definition ex_classified :: "string \<Rightarrow> string list \<Rightarrow> unit state" where
  "ex_classified fo dead =
     snd (run_phases [parse_flags (ex_cfg fo [] True) (ex_env dead ([], -1)),
                      classify (ex_cfg fo [] True) (ex_env dead ([], -1))] (init_state ()))"

text \<open>The state in which the monitor of the installation waits for its first event.\<close>

definition ex_monitoring :: "bool \<Rightarrow> (string \<times> int) \<Rightarrow> unit state" where
  "ex_monitoring ia res = snd (main (ex_cfg ''monitor'' [] ia) (ex_env [] res) [] ())"

text \<open>The same state when the master has been found dead.\<close>

definition ex_master_failed :: "unit state" where
  "ex_master_failed = set_State 0 STATE_FAILED (ex_monitoring False (''h2'', 0))"

text \<open>The installation with \<open>h3\<close> down, after the flags.\<close>

definition ex_parsed :: "unit state" where
  "ex_parsed = snd (parse_flags (ex_cfg ''monitor'' [] True) (ex_env [''h3''] ([], -1))
                      (init_state ()))"

text \<open>Mode \<open>check\<close> with \<open>h1\<close> down, after the locator.\<close>

definition ex_check_located :: "unit state" where
  "ex_check_located =
     snd (locate_master (ex_cfg ''check'' [] True) (ex_classified ''check'' [''h1'']))"

text \<open>The installation with a preferred master, and its state before the test of line 203.\<close>

definition ex_cfg_pref :: "string \<Rightarrow> config" where
  "ex_cfg_pref pm = (ex_cfg ''monitor'' [] True)\<lparr>prefMaster := pm\<rparr>"

definition ex_booted :: "unit state" where
  "ex_booted =
     snd (run_phases [parse_flags (ex_cfg_pref ''h9'') (ex_env [] ([], -1)),
                      classify (ex_cfg_pref ''h9'') (ex_env [] ([], -1)),
                      check_siblings (ex_env [] ([], -1)),
                      locate_master (ex_cfg_pref ''h9''), check_master,
                      check_slaves (ex_cfg_pref ''h9'') (ex_env [] ([], -1))] (init_state ()))"

lemmas ex_defs =
  ex_cfg_def ex_env_def ex_monitor_def ex_classified_def ex_env_chain_def
  ex_chain_classified_def hasSiblings_spec_def

lemmas model_defs =
  main_def main_phases_def parse_flags_def init_state_def classify_def classify_host_def
  new_monitor_def call_refresh_def emit_def set_State_def Let_def check_siblings_def
  locate_master_def elect_def check_master_def check_slaves_def check_slave_def
  check_prefMaster_def dispatch_def MainLoop_def failOptions_def switchOptions_def
  STATE_UNCONN_def STATE_SLAVE_def STATE_FAILED_def STATE_MASTER_def

section \<open>The master locator\<close>

lemma scan_unconn_find:
  "scan_unconn cfg sid (map Some ps) st =
     (case find (\<lambda>p. State (heap st p) = STATE_UNCONN \<and> ServerId (heap st p) = sid) ps of
        None \<Rightarrow> (Ok, st)
      | Some p \<Rightarrow> (Ok, elect cfg p st))"
  by (induction ps) auto

lemma scan_failed_find:
  "scan_failed cfg smh (map Some ps) st =
     (case find (\<lambda>p. State (heap st p) = STATE_FAILED
                      \<and> (Host (heap st p) = smh \<or> IP (heap st p) = smh)) ps of
        None \<Rightarrow> (Ok, st)
      | Some p \<Rightarrow> (Ok, elect cfg p st))"
  by (induction ps) auto

lemma elect_master: "master (elect cfg p st) = Some p"
  by (simp add: elect_def set_State_def emit_def Let_def)

lemma elect_heap:
  "heap (elect cfg p st) = (heap st)(p := (heap st p)\<lparr>State := STATE_MASTER\<rparr>)"
  by (simp add: elect_def set_State_def emit_def Let_def)

lemma elect_frame:
  "servers (elect cfg p st) = servers st \<and> slaves (elect cfg p st) = slaves st
   \<and> hostList (elect cfg p st) = hostList st \<and> exit (elect cfg p st) = exit st"
  by (simp add: elect_def set_State_def emit_def Let_def)

text \<open>
  Claim C1. With a switchover mode, or with failover mode \<open>monitor\<close>, the locator reads
  \<open>MasterServerId\<close> of the first slave \<open>s0\<close> and walks \<open>servers\<close> in host-list order. The
  first server in state \<open>Unconnected\<close> whose \<open>ServerId\<close> is that number becomes \<open>master\<close>,
  and its \<open>State\<close> is set to \<open>Master\<close>; nothing else in the store, in \<open>servers\<close> or in
  \<open>slaves\<close> changes. If there is no such server, the run ends in
  \<open>log.Fatalln("ERROR: Could not autodetect a master!")\<close>. The theorem is about a run in
  which classification found a slave; Claim C8 is about the run in which it found none.
\<close>

theorem C1_locator_unconnected_path:
  assumes mode: "switchover cfg \<noteq> [] \<or> failover cfg = ''monitor''"
    and sl: "slaves st = s0 # rest"
    and srv: "servers st = map Some ps"
    and nomaster: "master st = None"
  shows "run_phases [locate_master cfg, check_master] st =
           (case find (\<lambda>p. State (heap st p) = STATE_UNCONN
                            \<and> ServerId (heap st p) = MasterServerId (heap st s0)) ps of
              None \<Rightarrow> (Fatal ''ERROR: Could not autodetect a master!'', st)
            | Some p \<Rightarrow> (Ok, elect cfg p st))
         \<and> master (elect cfg p st) = Some p
         \<and> heap (elect cfg p st) = (heap st)(p := (heap st p)\<lparr>State := STATE_MASTER\<rparr>)
         \<and> servers (elect cfg p st) = servers st
         \<and> slaves (elect cfg p st) = slaves st"
  using assms
  by (simp add: locate_master_def scan_unconn_find check_master_def elect_master elect_heap
      elect_frame split: option.splits)

lemma ex_classified_alive:
  "slaves (ex_classified ''monitor'' []) = [1, 2]"
  "servers (ex_classified ''monitor'' []) = map Some [0, 1, 2]"
  "master (ex_classified ''monitor'' []) = None"
  by (simp_all add: ex_defs model_defs)

theorem C1_locator_unconnected_path_witness:
  "failover (ex_cfg ''monitor'' [] True) = ''monitor''
   \<and> slaves (ex_classified ''monitor'' []) = [1, 2]
   \<and> servers (ex_classified ''monitor'' []) = [Some 0, Some 1, Some 2]
   \<and> fst (run_phases [locate_master (ex_cfg ''monitor'' [] True), check_master]
            (ex_classified ''monitor'' [])) = Ok
   \<and> master (snd (run_phases [locate_master (ex_cfg ''monitor'' [] True), check_master]
                    (ex_classified ''monitor'' []))) = Some 0
   \<and> State (heap (snd (run_phases [locate_master (ex_cfg ''monitor'' [] True), check_master]
                          (ex_classified ''monitor'' []))) 0) = ''Master''"
proof -
  have mode: "switchover (ex_cfg ''monitor'' [] True) \<noteq> []
              \<or> failover (ex_cfg ''monitor'' [] True) = ''monitor''"
    by (simp add: ex_cfg_def)
  have found: "find (\<lambda>p. State (heap (ex_classified ''monitor'' []) p) = STATE_UNCONN
                         \<and> ServerId (heap (ex_classified ''monitor'' []) p)
                           = MasterServerId (heap (ex_classified ''monitor'' []) 1)) [0, 1, 2]
               = Some 0"
    by (simp add: ex_defs model_defs)
  show ?thesis
    using C1_locator_unconnected_path [OF mode ex_classified_alive(1) ex_classified_alive(2)
        ex_classified_alive(3), where p = 0] found
    by (simp add: ex_classified_alive ex_cfg_def STATE_MASTER_def)
qed

text \<open>
  Claim C2. With a failover mode other than \<open>monitor\<close> (and no switchover mode), the
  locator reads \<open>MasterHost\<close> of the first slave \<open>s0\<close> and walks \<open>servers\<close> in host-list
  order. The first server in state \<open>Failed\<close> whose \<open>Host\<close> or \<open>IP\<close> is that name becomes
  \<open>master\<close>, with \<open>State\<close> set to \<open>Master\<close>. If there is none, the run ends in the fatal
  error. Again the theorem is about a run in which classification found a slave.
\<close>

theorem C2_locator_failed_path:
  assumes mode: "switchover cfg = []" "failover cfg \<noteq> ''monitor''"
    and sl: "slaves st = s0 # rest"
    and srv: "servers st = map Some ps"
    and nomaster: "master st = None"
  shows "run_phases [locate_master cfg, check_master] st =
           (case find (\<lambda>p. State (heap st p) = STATE_FAILED
                            \<and> (Host (heap st p) = MasterHost (heap st s0)
                               \<or> IP (heap st p) = MasterHost (heap st s0))) ps of
              None \<Rightarrow> (Fatal ''ERROR: Could not autodetect a master!'', st)
            | Some p \<Rightarrow> (Ok, elect cfg p st))
         \<and> master (elect cfg p st) = Some p
         \<and> heap (elect cfg p st) = (heap st)(p := (heap st p)\<lparr>State := STATE_MASTER\<rparr>)
         \<and> servers (elect cfg p st) = servers st
         \<and> slaves (elect cfg p st) = slaves st"
  using assms
  by (simp add: locate_master_def scan_failed_find check_master_def elect_master elect_heap
      elect_frame split: option.splits)

lemma ex_classified_h1_dead:
  "slaves (ex_classified ''force'' [''h1'']) = [1, 2]"
  "servers (ex_classified ''force'' [''h1'']) = map Some [0, 1, 2]"
  "master (ex_classified ''force'' [''h1'']) = None"
  by (simp_all add: ex_defs model_defs)

theorem C2_locator_failed_path_witness:
  "switchover (ex_cfg ''force'' [] True) = []
   \<and> failover (ex_cfg ''force'' [] True) = ''force''
   \<and> slaves (ex_classified ''force'' [''h1'']) = [1, 2]
   \<and> MasterHost (heap (ex_classified ''force'' [''h1'']) 1) = ''h1''
   \<and> State (heap (ex_classified ''force'' [''h1'']) 0) = ''Failed''
   \<and> fst (run_phases [locate_master (ex_cfg ''force'' [] True), check_master]
            (ex_classified ''force'' [''h1''])) = Ok
   \<and> master (snd (run_phases [locate_master (ex_cfg ''force'' [] True), check_master]
                    (ex_classified ''force'' [''h1'']))) = Some 0
   \<and> State (heap (snd (run_phases [locate_master (ex_cfg ''force'' [] True), check_master]
                          (ex_classified ''force'' [''h1'']))) 0) = ''Master''"
proof -
  have mode: "switchover (ex_cfg ''force'' [] True) = []"
    "failover (ex_cfg ''force'' [] True) \<noteq> ''monitor''"
    by (simp_all add: ex_cfg_def)
  have found: "find (\<lambda>p. State (heap (ex_classified ''force'' [''h1'']) p) = STATE_FAILED
                         \<and> (Host (heap (ex_classified ''force'' [''h1'']) p)
                              = MasterHost (heap (ex_classified ''force'' [''h1'']) 1)
                            \<or> IP (heap (ex_classified ''force'' [''h1'']) p)
                              = MasterHost (heap (ex_classified ''force'' [''h1'']) 1)))
                 [0, 1, 2]
               = Some 0"
    by (simp add: ex_defs model_defs)
  have facts: "MasterHost (heap (ex_classified ''force'' [''h1'']) 1) = ''h1''"
    "State (heap (ex_classified ''force'' [''h1'']) 0) = ''Failed''"
    by (simp_all add: ex_defs model_defs)
  show ?thesis
    using C2_locator_failed_path [OF mode ex_classified_h1_dead(1) ex_classified_h1_dead(2)
        ex_classified_h1_dead(3), where p = 0] found facts
    by (simp add: ex_classified_h1_dead ex_cfg_def STATE_MASTER_def)
qed

section \<open>No slave at all\<close>

lemma classify_Ok: "fst (classify cfg env st) = Ok"
  by (simp add: classify_def Let_def)

lemma classify_host_dead:
  "snd (fst (newServerMonitor env url (world st))) \<Longrightarrow>
   slaves (classify_host cfg env k url st) = slaves st"
  by (simp add: classify_host_def new_monitor_def emit_def set_State_def Let_def)

text \<open>If every host refuses the connection, no slave is found.\<close>

lemma classify_from_all_dead:
  "\<forall>url w. snd (fst (newServerMonitor env url w)) \<Longrightarrow>
   slaves (classify_from cfg env k urls st) = slaves st"
  by (induction urls arbitrary: k st) (simp_all add: classify_host_dead)

lemma call_refresh_UsingGtid:
  "UsingGtid (heap (call_refresh env p st) p)
     = UsingGtid (fst (refresh env (heap st p) (world st)))"
  by (simp add: call_refresh_def emit_def Let_def)

lemma classify_host_no_gtid:
  "\<forall>m w. UsingGtid (fst (refresh env m w)) = [] \<Longrightarrow>
   slaves (classify_host cfg env k url st) = slaves st"
  by (simp add: classify_host_def Let_def call_refresh_UsingGtid)
     (simp add: new_monitor_def emit_def set_State_def call_refresh_def Let_def)

text \<open>If no host has replication configured, no slave is found.\<close>

lemma classify_from_no_gtid:
  "\<forall>m w. UsingGtid (fst (refresh env m w)) = [] \<Longrightarrow>
   slaves (classify_from cfg env k urls st) = slaves st"
  by (induction urls arbitrary: k st) (simp_all add: classify_host_no_gtid)

text \<open>
  Claim C8. If the flags are accepted and classification leaves \<open>slaves\<close> empty, then
  \<open>main\<close> ends in the panic of \<open>slaves[0]\<close>, in the state classification left, whatever
  the mode: the loop over \<open>slaves\<close> of lines 141 to 145 has nothing to do, and both
  branches of the locator start with \<open>slaves[0]\<close>. The check of line 181 with its
  message is not reached.
\<close>

theorem C8_no_slave_panics:
  assumes flags: "parse_flags cfg env (init_state w) = (Ok, st0)"
    and none: "slaves (snd (classify cfg env st0)) = []"
  shows "main cfg env evs w = (Panic index_out_of_range, snd (classify cfg env st0))"
proof -
  obtain st1 where c: "classify cfg env st0 = (Ok, st1)"
    using classify_Ok [of cfg env st0] by (cases "classify cfg env st0") simp
  with none have e: "slaves st1 = []" by simp
  then have s: "check_siblings env st1 = (Ok, st1)"
    by (simp add: check_siblings_def)
  from e have l: "locate_master cfg st1 = (Panic index_out_of_range, st1)"
    by (simp add: locate_master_def)
  show ?thesis
    using flags c s l by (simp add: main_def main_phases_def)
qed

theorem C8_no_slave_panics_witness:
  "fst (parse_flags (ex_cfg ''force'' [] True) (ex_env [''h1'', ''h2'', ''h3''] ([], -1))
          (init_state ())) = Ok
   \<and> fst (main (ex_cfg ''force'' [] True) (ex_env [''h1'', ''h2'', ''h3''] ([], -1)) [] ())
       = Panic ''runtime error: index out of range''
   \<and> fst (main (ex_cfg ''monitor'' [] True) (ex_env [''h1'', ''h2'', ''h3''] ([], -1)) [] ())
       = Panic ''runtime error: index out of range''"
proof -
  let ?env = "ex_env [''h1'', ''h2'', ''h3''] ([], -1)"
  let ?f = "snd (parse_flags (ex_cfg ''force'' [] True) ?env (init_state ()))"
  let ?m = "snd (parse_flags (ex_cfg ''monitor'' [] True) ?env (init_state ()))"
  have f: "parse_flags (ex_cfg ''force'' [] True) ?env (init_state ()) = (Ok, ?f)"
    by (simp add: ex_defs model_defs)
  have m: "parse_flags (ex_cfg ''monitor'' [] True) ?env (init_state ()) = (Ok, ?m)"
    by (simp add: ex_defs model_defs)
  have nf: "slaves (snd (classify (ex_cfg ''force'' [] True) ?env ?f)) = []"
    by (simp add: ex_defs model_defs)
  have nm: "slaves (snd (classify (ex_cfg ''monitor'' [] True) ?env ?m)) = []"
    by (simp add: ex_defs model_defs)
  have f1: "fst (parse_flags (ex_cfg ''force'' [] True) ?env (init_state ())) = Ok"
    by (simp add: ex_defs model_defs)
  show ?thesis
    using C8_no_slave_panics [OF f nf, of "[]"] C8_no_slave_panics [OF m nm, of "[]"] f1
    by (simp add: index_out_of_range_def)
qed

section \<open>Slaves of different masters\<close>

lemma check_siblings_loop_iff:
  "check_siblings_loop env sls st =
     (if \<exists>sl\<in>set sls. hasSiblings env (heap st sl) (map (heap st) (slaves st)) = False
      then (Fatal ''ERROR: Multi-master topologies are not yet supported.'', st)
      else (Ok, st))"
  by (induction sls) auto

lemma hasSiblings_spec_iff:
  "(\<exists>sl\<in>set sls. hasSiblings_spec (h sl) (map h sls) = False)
     \<longleftrightarrow> (\<exists>a\<in>set sls. \<exists>b\<in>set sls. MasterServerId (h a) \<noteq> MasterServerId (h b))"
  by (auto simp: hasSiblings_spec_def list_all_iff)

text \<open>
  Claim C4. After classification \<open>main\<close> calls \<open>sl.hasSiblings(slaves)\<close> for every slave.
  If one call returns false, the run ends in
  \<open>log.Fatalln("ERROR: Multi-master topologies are not yet supported.")\<close>, in the state
  classification left: whatever comes later in \<open>main\<close>, the locator first, is not run. If
  every call returns true, \<open>main\<close> goes on with what comes later, in the same state.
  With \<open>hasSiblings\<close> as the spec describes it, a call returns false exactly when two
  slaves record different master server ids.
\<close>

theorem C4_multi_master_is_fatal:
  "run_phases (check_siblings env # later) st =
     (if \<exists>sl\<in>set (slaves st). hasSiblings env (heap st sl) (map (heap st) (slaves st)) = False
      then (Fatal ''ERROR: Multi-master topologies are not yet supported.'', st)
      else run_phases later st)
   \<and> (hasSiblings env = hasSiblings_spec \<longrightarrow>
        ((\<exists>sl\<in>set (slaves st). hasSiblings env (heap st sl) (map (heap st) (slaves st)) = False)
           \<longleftrightarrow> (\<exists>a\<in>set (slaves st). \<exists>b\<in>set (slaves st).
                   MasterServerId (heap st a) \<noteq> MasterServerId (heap st b))))"
  using hasSiblings_spec_iff [of "slaves st" "heap st"]
  by (simp add: check_siblings_def check_siblings_loop_iff)

theorem C4_multi_master_is_fatal_witness:
  "slaves ex_chain_classified = [1, 2]
   \<and> MasterServerId (heap ex_chain_classified 1) = 100
   \<and> MasterServerId (heap ex_chain_classified 2) = 101
   \<and> run_phases (check_siblings ex_env_chain
                   # [locate_master (ex_cfg ''monitor'' [] True), check_master])
        ex_chain_classified
       = (Fatal ''ERROR: Multi-master topologies are not yet supported.'', ex_chain_classified)
   \<and> fst (run_phases (check_siblings (ex_env [] ([], -1))
                        # [locate_master (ex_cfg ''monitor'' [] True), check_master])
             (ex_classified ''monitor'' [])) = Ok"
proof -
  have facts: "slaves ex_chain_classified = [1, 2]"
    "MasterServerId (heap ex_chain_classified 1) = 100"
    "MasterServerId (heap ex_chain_classified 2) = 101"
    "hasSiblings ex_env_chain = hasSiblings_spec"
    by (simp_all add: ex_defs model_defs)
  have facts': "slaves (ex_classified ''monitor'' []) = [1, 2]"
    "MasterServerId (heap (ex_classified ''monitor'' []) 1) = 100"
    "MasterServerId (heap (ex_classified ''monitor'' []) 2) = 100"
    "hasSiblings (ex_env [] ([], -1)) = hasSiblings_spec"
    by (simp_all add: ex_defs model_defs)
  have l: "fst (run_phases [locate_master (ex_cfg ''monitor'' [] True), check_master]
                  (ex_classified ''monitor'' [])) = Ok"
    by (simp add: ex_defs model_defs)
  show ?thesis
    using C4_multi_master_is_fatal [of ex_env_chain
        "[locate_master (ex_cfg ''monitor'' [] True), check_master]" ex_chain_classified]
      C4_multi_master_is_fatal [of "ex_env [] ([], -1)"
        "[locate_master (ex_cfg ''monitor'' [] True), check_master]"
        "ex_classified ''monitor'' []"]
      facts facts' l
    by (simp add: hasSiblings_spec_def)
qed

section \<open>The monitoring loop\<close>

lemma for_loop_wait:
  "exit st = False \<Longrightarrow> for_loop cfg env [] st = (Waiting, st)"
  by (simp add: for_loop.simps)

lemma for_loop_step:
  "exit st = False \<Longrightarrow> loop_body cfg env ev st = (Ok, st1) \<Longrightarrow>
   for_loop cfg env (ev # evs) st = for_loop cfg env evs st1"
  by (subst for_loop.simps) simp

lemma for_loop_stop:
  "exit st = False \<Longrightarrow> loop_body cfg env ev st = (r, st1) \<Longrightarrow> r \<noteq> Ok \<Longrightarrow>
   for_loop cfg env (ev # evs) st = (r, st1)"
  by (subst for_loop.simps) (cases r; simp)

lemma for_loop_leave:
  "exit st \<Longrightarrow>
   for_loop cfg env evs st =
     (case after_loop cfg env st of
        (Goto_MainLoop, st2) \<Rightarrow>
          (case MainLoop cfg env st2 of
             (Ok, st3) \<Rightarrow> for_loop cfg env evs st3
           | r \<Rightarrow> r)
      | r \<Rightarrow> r)"
  by (subst for_loop.simps) simp

lemma ex_monitoring_fields:
  "master (ex_monitoring ia res) = Some 0"
  "slaves (ex_monitoring ia res) = [1, 2]"
  "servers (ex_monitoring ia res) = [Some 0, Some 1, Some 2]"
  "exit (ex_monitoring ia res) = False"
  "command (ex_monitoring ia res) = []"
  "nextp (ex_monitoring ia res) = 3"
  "State (heap (ex_monitoring ia res) 0) = ''Master''"
  "URL (heap (ex_monitoring ia res) 1) = ''h2''"
  "URL (heap (ex_monitoring ia res) 2) = ''h3''"
  by (simp_all add: ex_monitoring_def ex_defs model_defs for_loop_wait)

lemma on_CtrlS_frame:
  assumes "on_CtrlS cfg env st = (Ok, st1)" and "master st = Some mp"
  shows "servers st1 = servers st \<and> exit st1 = exit st \<and> command st1 = command st
         \<and> hostList st1 = hostList st \<and> deferred st1 = deferred st
         \<and> length (slaves st1) = length (slaves st)
         \<and> (\<forall>i. i \<noteq> nat (snd (fst (do_switchover env (heap st mp) (world st))))
                \<longrightarrow> slaves st1 ! i = slaves st ! i)
         \<and> (\<forall>q<nextp st. heap st1 q = heap st q)
         \<and> master st1 \<noteq> None"
  using assms
  by (auto simp: on_CtrlS_def new_monitor_def emit_def Let_def split: if_splits)

lemma select_case_CtrlS:
  "select_case cfg env (TbEvent EventKey KeyCtrlS ch) st =
     (case on_CtrlS cfg env st of
        (Ok, st1) \<Rightarrow> (Ok, if ch = CHR ''s'' then emit TermboxSync st1 else st1)
      | r \<Rightarrow> r)"
  by (auto simp: select_case_def key_pressed_def Let_def split: prod.splits outcome.splits)

lemma loop_body_quiet:
  assumes "select_case cfg env ev st = (Ok, st1)"
    and "master st1 = Some mp"
    and "interactive cfg \<or> State (heap st1 mp) \<noteq> STATE_FAILED"
  shows "loop_body cfg env ev st = (Ok, st1)"
  using assms by (auto simp: loop_body_def failure_check_def)

lemma loop_body_failed:
  assumes "select_case cfg env ev st = (Ok, st1)"
    and "master st1 = Some mp"
    and "interactive cfg = False" "State (heap st1 mp) = STATE_FAILED"
  shows "loop_body cfg env ev st = (Ok, st1\<lparr>command := ''failover'', exit := True\<rparr>)"
  using assms by (auto simp: loop_body_def failure_check_def)


lemma on_CtrlS_success:
  assumes m: "master st = Some mp"
    and res: "do_switchover env (heap st mp) (world st) = ((nmUrl, nsKey), w1)"
    and n1: "newServerMonitor env nmUrl w1 = ((m1, e1), w2)"
    and n2: "newServerMonitor env (URL (((heap st)(nextp st := m1)) (slaves st ! nat nsKey))) w2
               = ((m2, e2), w3)"
    and ok: "nmUrl \<noteq> []" "0 \<le> nsKey" "nat nsKey < length (slaves st)"
  shows "on_CtrlS cfg env st =
          (Ok, st\<lparr>master := Some (nextp st),
                  slaves := (slaves st)[nat nsKey := Suc (nextp st)],
                  heap := (heap st)(nextp st := m1, Suc (nextp st) := m2),
                  nextp := Suc (Suc (nextp st)),
                  world := w3,
                  trace := trace st @ [CallSwitchover mp]
                    @ (if verbose cfg
                       then [Logprintf ''DEBUG: Reinstancing new master: %s and new slave: %s [%d]''
                               [ArgS nmUrl, ArgS (URL (heap st (slaves st ! nat nsKey))), ArgI nsKey]]
                       else [])
                    @ [CallNewServerMonitor nmUrl,
                       CallNewServerMonitor
                         (URL (((heap st)(nextp st := m1)) (slaves st ! nat nsKey)))]\<rparr>)"
  using m res n1 n2 ok
  by (simp add: on_CtrlS_def Let_def new_monitor_def emit_def del: fun_upd_apply)



lemma on_CtrlS_empty:
  assumes m: "master st = Some mp"
    and res: "do_switchover env (heap st mp) (world st) = ((nmUrl, nsKey), w1)"
    and no: "nmUrl = [] \<or> nsKey < 0"
  shows "on_CtrlS cfg env st = (Ok, st\<lparr>world := w1, trace := trace st @ [CallSwitchover mp]\<rparr>)"
  using assms
  by (auto simp: on_CtrlS_def emit_def Let_def)


lemma on_CtrlS_continues:
  assumes m: "master st = Some mp"
    and res: "do_switchover env (heap st mp) (world st) = ((nmUrl, nsKey), w1)"
    and ok: "fst (on_CtrlS cfg env st) = Ok"
  shows "let st1 = snd (on_CtrlS cfg env st);
             st2 = (if ch = CHR ''s'' then emit TermboxSync st1 else st1)
         in servers st1 = servers st \<and> exit st1 = exit st \<and> command st1 = command st
            \<and> length (slaves st1) = length (slaves st)
            \<and> (\<forall>i. i \<noteq> nat nsKey \<longrightarrow> slaves st1 ! i = slaves st ! i)
            \<and> (\<forall>q<nextp st. heap st1 q = heap st q)
            \<and> select_case cfg env (TbEvent EventKey KeyCtrlS ch) st = (Ok, st2)
            \<and> (exit st = False
                 \<and> (interactive cfg \<or> State (heap st1 (the (master st1))) \<noteq> STATE_FAILED) \<longrightarrow>
                 for_loop cfg env (TbEvent EventKey KeyCtrlS ch # evs) st
                   = for_loop cfg env evs st2)"
proof -
  define st1 where "st1 = snd (on_CtrlS cfg env st)"
  define st2 where "st2 = (if ch = CHR ''s'' then emit TermboxSync st1 else st1)"
  from ok have r: "on_CtrlS cfg env st = (Ok, st1)"
    by (simp add: st1_def prod_eq_iff)
  note fr = on_CtrlS_frame [OF r m]
  have k: "snd (fst (do_switchover env (heap st mp) (world st))) = nsKey"
    using res by simp
  have sel: "select_case cfg env (TbEvent EventKey KeyCtrlS ch) st = (Ok, st2)"
    by (simp add: select_case_CtrlS r st2_def)
  have cont: "for_loop cfg env (TbEvent EventKey KeyCtrlS ch # evs) st = for_loop cfg env evs st2"
    if a: "exit st = False
           \<and> (interactive cfg \<or> State (heap st1 (the (master st1))) \<noteq> STATE_FAILED)"
  proof -
    obtain mp1 where m1: "master st1 = Some mp1" using fr by auto
    then have m2: "master st2 = Some mp1" by (simp add: st2_def emit_def)
    have h: "heap st2 = heap st1" by (simp add: st2_def emit_def)
    from a m1 have "interactive cfg \<or> State (heap st2 mp1) \<noteq> STATE_FAILED"
      by (simp add: h)
    from loop_body_quiet [OF sel m2 this] a show ?thesis
      by (simp add: for_loop_step)
  qed
  have "servers st1 = servers st \<and> exit st1 = exit st \<and> command st1 = command st
            \<and> length (slaves st1) = length (slaves st)
            \<and> (\<forall>i. i \<noteq> nat nsKey \<longrightarrow> slaves st1 ! i = slaves st ! i)
            \<and> (\<forall>q<nextp st. heap st1 q = heap st q)
            \<and> select_case cfg env (TbEvent EventKey KeyCtrlS ch) st = (Ok, st2)
            \<and> (exit st = False
                 \<and> (interactive cfg \<or> State (heap st1 (the (master st1))) \<noteq> STATE_FAILED) \<longrightarrow>
                 for_loop cfg env (TbEvent EventKey KeyCtrlS ch # evs) st
                   = for_loop cfg env evs st2)"
    using fr k sel cont by blast
  then show ?thesis
    unfolding Let_def st1_def st2_def .
qed

text \<open>
  Claim C5. The key Ctrl-S calls \<open>switchover()\<close> on the master. If the URL returned is
  not empty and the index returned names an entry of \<open>slaves\<close> (it is not negative and
  below \<open>len(slaves)\<close>), two monitors are created: \<open>master\<close> points to the first, the
  entry of \<open>slaves\<close> at the index to the second. No other variable of the program
  changes: \<open>servers\<close>, the other entries and the length of \<open>slaves\<close>, \<open>exit\<close>, \<open>command\<close>
  and every monitor that existed are as before. If the URL is empty or the index is
  negative, no variable of the program changes (the call itself is the only effect). In
  both cases the handler leaves \<open>exit\<close> alone, and the loop goes on with the next event
  unless the test at the end of the pass (Claim C3: not interactive and the master
  \<open>Failed\<close>) sets it.
\<close>

theorem C5_manual_switchover:
  assumes m: "master st = Some mp"
    and res: "do_switchover env (heap st mp) (world st) = ((nmUrl, nsKey), w1)"
    and n1: "newServerMonitor env nmUrl w1 = ((m1, e1), w2)"
    and n2: "newServerMonitor env (URL (((heap st)(nextp st := m1)) (slaves st ! nat nsKey))) w2
               = ((m2, e2), w3)"
  shows
    "(nmUrl \<noteq> [] \<and> 0 \<le> nsKey \<and> nat nsKey < length (slaves st) \<longrightarrow>
        on_CtrlS cfg env st =
          (Ok, st\<lparr>master := Some (nextp st),
                  slaves := (slaves st)[nat nsKey := Suc (nextp st)],
                  heap := (heap st)(nextp st := m1, Suc (nextp st) := m2),
                  nextp := Suc (Suc (nextp st)),
                  world := w3,
                  trace := trace st @ [CallSwitchover mp]
                    @ (if verbose cfg
                       then [Logprintf ''DEBUG: Reinstancing new master: %s and new slave: %s [%d]''
                               [ArgS nmUrl, ArgS (URL (heap st (slaves st ! nat nsKey))), ArgI nsKey]]
                       else [])
                    @ [CallNewServerMonitor nmUrl,
                       CallNewServerMonitor
                         (URL (((heap st)(nextp st := m1)) (slaves st ! nat nsKey)))]\<rparr>))
     \<and> (nmUrl = [] \<or> nsKey < 0 \<longrightarrow>
          on_CtrlS cfg env st = (Ok, st\<lparr>world := w1, trace := trace st @ [CallSwitchover mp]\<rparr>))
     \<and> (fst (on_CtrlS cfg env st) = Ok \<longrightarrow>
          (let st1 = snd (on_CtrlS cfg env st);
               st2 = (if ch = CHR ''s'' then emit TermboxSync st1 else st1)
           in servers st1 = servers st \<and> exit st1 = exit st \<and> command st1 = command st
              \<and> length (slaves st1) = length (slaves st)
              \<and> (\<forall>i. i \<noteq> nat nsKey \<longrightarrow> slaves st1 ! i = slaves st ! i)
              \<and> (\<forall>q<nextp st. heap st1 q = heap st q)
              \<and> select_case cfg env (TbEvent EventKey KeyCtrlS ch) st = (Ok, st2)
              \<and> (exit st = False
                   \<and> (interactive cfg \<or> State (heap st1 (the (master st1))) \<noteq> STATE_FAILED) \<longrightarrow>
                   for_loop cfg env (TbEvent EventKey KeyCtrlS ch # evs) st
                     = for_loop cfg env evs st2)))"
proof (intro conjI)
  show "nmUrl \<noteq> [] \<and> 0 \<le> nsKey \<and> nat nsKey < length (slaves st) \<longrightarrow>
        on_CtrlS cfg env st =
          (Ok, st\<lparr>master := Some (nextp st),
                  slaves := (slaves st)[nat nsKey := Suc (nextp st)],
                  heap := (heap st)(nextp st := m1, Suc (nextp st) := m2),
                  nextp := Suc (Suc (nextp st)),
                  world := w3,
                  trace := trace st @ [CallSwitchover mp]
                    @ (if verbose cfg
                       then [Logprintf ''DEBUG: Reinstancing new master: %s and new slave: %s [%d]''
                               [ArgS nmUrl, ArgS (URL (heap st (slaves st ! nat nsKey))), ArgI nsKey]]
                       else [])
                    @ [CallNewServerMonitor nmUrl,
                       CallNewServerMonitor
                         (URL (((heap st)(nextp st := m1)) (slaves st ! nat nsKey)))]\<rparr>)"
    using on_CtrlS_success [OF m res n1 n2] by blast
  show "nmUrl = [] \<or> nsKey < 0 \<longrightarrow>
          on_CtrlS cfg env st = (Ok, st\<lparr>world := w1, trace := trace st @ [CallSwitchover mp]\<rparr>)"
    using on_CtrlS_empty [OF m res] by blast
  show "fst (on_CtrlS cfg env st) = Ok \<longrightarrow>
          (let st1 = snd (on_CtrlS cfg env st);
               st2 = (if ch = CHR ''s'' then emit TermboxSync st1 else st1)
           in servers st1 = servers st \<and> exit st1 = exit st \<and> command st1 = command st
              \<and> length (slaves st1) = length (slaves st)
              \<and> (\<forall>i. i \<noteq> nat nsKey \<longrightarrow> slaves st1 ! i = slaves st ! i)
              \<and> (\<forall>q<nextp st. heap st1 q = heap st q)
              \<and> select_case cfg env (TbEvent EventKey KeyCtrlS ch) st = (Ok, st2)
              \<and> (exit st = False
                   \<and> (interactive cfg \<or> State (heap st1 (the (master st1))) \<noteq> STATE_FAILED) \<longrightarrow>
                   for_loop cfg env (TbEvent EventKey KeyCtrlS ch # evs) st
                     = for_loop cfg env evs st2))"
    using on_CtrlS_continues [OF m res] by blast
qed


theorem C5_manual_switchover_witness:
  "master (ex_monitoring True (''h3'', 1)) = Some 0
   \<and> slaves (ex_monitoring True (''h3'', 1)) = [1, 2]
   \<and> fst (on_CtrlS (ex_cfg ''monitor'' [] True) (ex_env [] (''h3'', 1))
            (ex_monitoring True (''h3'', 1))) = Ok
   \<and> master (snd (on_CtrlS (ex_cfg ''monitor'' [] True) (ex_env [] (''h3'', 1))
                    (ex_monitoring True (''h3'', 1)))) = Some 3
   \<and> slaves (snd (on_CtrlS (ex_cfg ''monitor'' [] True) (ex_env [] (''h3'', 1))
                    (ex_monitoring True (''h3'', 1)))) = [1, 4]
   \<and> exit (snd (on_CtrlS (ex_cfg ''monitor'' [] True) (ex_env [] (''h3'', 1))
                  (ex_monitoring True (''h3'', 1)))) = False
   \<and> fst (for_loop (ex_cfg ''monitor'' [] True) (ex_env [] (''h3'', 1))
            [TbEvent EventKey KeyCtrlS (CHR ''x'')] (ex_monitoring True (''h3'', 1))) = Waiting"
proof -
  let ?st = "ex_monitoring True (''h3'', 1)"
  let ?env = "ex_env [] (''h3'', 1)"
  let ?cfg = "ex_cfg ''monitor'' [] True"
  have res: "do_switchover ?env (heap ?st 0) (world ?st) = ((''h3'', 1), ())"
    by (simp add: ex_env_def)
  have n1: "newServerMonitor ?env ''h3'' () = ((ex_monitor ''h3'', False), ())"
    by (simp add: ex_env_def)
  have n2: "newServerMonitor ?env
              (URL (((heap ?st)(nextp ?st := ex_monitor ''h3'')) (slaves ?st ! nat 1))) ()
            = ((ex_monitor ''h3'', False), ())"
    by (simp add: ex_env_def ex_monitoring_fields)
  note t = C5_manual_switchover [OF ex_monitoring_fields(1) res n1 n2, of ?cfg "CHR ''x''" "[]"]
  have c: "''h3'' \<noteq> [] \<and> (0::int) \<le> 1 \<and> nat 1 < length (slaves ?st)"
    by (simp add: ex_monitoring_fields)
  note eq = t [THEN conjunct1, THEN mp, OF c]
  have ok: "fst (on_CtrlS ?cfg ?env ?st) = Ok"
    by (simp add: eq)
  note t3 = t [THEN conjunct2, THEN conjunct2, THEN mp, OF ok]
  have i: "interactive ?cfg" by (simp add: ex_cfg_def)
  have e: "exit (snd (on_CtrlS ?cfg ?env ?st)) = False"
    by (simp add: eq ex_monitoring_fields)
  have "for_loop ?cfg ?env [TbEvent EventKey KeyCtrlS (CHR ''x'')] ?st
          = for_loop ?cfg ?env [] (snd (on_CtrlS ?cfg ?env ?st))"
    using t3 i by (simp add: Let_def ex_monitoring_fields)
  then have w: "fst (for_loop ?cfg ?env [TbEvent EventKey KeyCtrlS (CHR ''x'')] ?st) = Waiting"
    by (simp add: for_loop_wait [OF e])
  have p: "master (snd (on_CtrlS ?cfg ?env ?st)) = Some 3"
    "slaves (snd (on_CtrlS ?cfg ?env ?st)) = [1, 4]"
    by (simp_all add: eq ex_monitoring_fields)
  show ?thesis
    using ok p e w by (simp add: ex_monitoring_fields)
qed

text \<open>An index at or beyond \<open>len(slaves)\<close> panics at \<open>slaves[nsKey]\<close>.\<close>

lemma on_CtrlS_index_beyond:
  assumes m: "master st = Some mp"
    and res: "fst (do_switchover env (heap st mp) (world st)) = (nmUrl, nsKey)"
    and url: "nmUrl \<noteq> []"
    and beyond: "int (length (slaves st)) \<le> nsKey"
  shows "fst (on_CtrlS cfg env st) = Panic index_out_of_range"
proof -
  from beyond have k: "0 \<le> nsKey" "\<not> nat nsKey < length (slaves st)"
    by linarith+
  show ?thesis
    using m res url k
    by (cases "verbose cfg") (simp_all add: on_CtrlS_def Let_def new_monitor_def emit_def)
qed

lemma after_loop_failover_success:
  assumes cmd: "command s = ''failover''"
    and m: "master s = Some mp"
    and res: "do_failover env (heap s mp) (world s) = ((nmUrl, nmKey), w1)"
    and n1: "newServerMonitor env nmUrl w1 = ((m1, e1), w2)"
    and ok: "nmUrl \<noteq> []" "0 \<le> nmKey" "nat nmKey < length (slaves s)"
  shows "after_loop cfg env s =
           (Goto_MainLoop,
            s\<lparr>exit := False, master := Some (nextp s),
              slaves := take (nat nmKey) (slaves s) @ drop (Suc (nat nmKey)) (slaves s),
              heap := (heap s)(nextp s := m1), nextp := Suc (nextp s), world := w2,
              trace := trace s @ [TermboxClose, CallFailover mp]
                @ (if verbose cfg
                   then [Printf ''DEBUG: Reinstancing new master: %s'' [ArgS nmUrl]]
                   else [])
                @ [CallNewServerMonitor nmUrl,
                   Println [''###### Restarting monitor console in 5 seconds. Press Ctrl-C to exit''],
                   Sleep 5]\<rparr>)"
  using assms
  by (simp add: after_loop_def Let_def new_monitor_def emit_def del: fun_upd_apply)

lemma after_loop_failover_empty:
  assumes cmd: "command s = ''failover''"
    and m: "master s = Some mp"
    and res: "do_failover env (heap s mp) (world s) = ((nmUrl, nmKey), w1)"
    and no: "nmUrl = []"
  shows "after_loop cfg env s =
           (Goto_MainLoop,
            s\<lparr>exit := False, world := w1,
              trace := trace s @ [TermboxClose, CallFailover mp,
                   Println [''###### Restarting monitor console in 5 seconds. Press Ctrl-C to exit''],
                   Sleep 5]\<rparr>)"
  using assms
  by (simp add: after_loop_def Let_def emit_def del: fun_upd_apply)

lemma MainLoop_init_ok:
  "fst (termbox_Init env (world st)) = None \<Longrightarrow>
   fst (MainLoop cfg env st) = Ok \<and> exit (snd (MainLoop cfg env st)) = exit st"
  by (simp add: MainLoop_def Let_def emit_def)

lemma restart_after_failover:
  assumes sel: "select_case cfg env ev st = (Ok, st1)"
    and m: "master st1 = Some mp"
    and ni: "interactive cfg = False"
    and failed: "State (heap st1 mp) = STATE_FAILED"
    and running: "exit st = False"
    and goto: "fst (after_loop cfg env (st1\<lparr>command := ''failover'', exit := True\<rparr>)) = Goto_MainLoop"
  shows "let st2 = snd (after_loop cfg env (st1\<lparr>command := ''failover'', exit := True\<rparr>))
         in exit st2 = False
            \<and> for_loop cfg env (ev # evs) st =
                (case MainLoop cfg env st2 of
                   (Ok, st3) \<Rightarrow> for_loop cfg env evs st3
                 | r \<Rightarrow> r)
            \<and> (fst (termbox_Init env (world st2)) = None \<longrightarrow>
                 fst (for_loop cfg env [ev] st) = Waiting)"
proof -
  define s where "s = st1\<lparr>command := ''failover'', exit := True\<rparr>"
  define st2 where "st2 = snd (after_loop cfg env s)"
  have lb: "loop_body cfg env ev st = (Ok, s)"
    unfolding s_def by (rule loop_body_failed [OF sel m ni failed])
  from goto have al: "after_loop cfg env s = (Goto_MainLoop, st2)"
    by (simp add: s_def st2_def prod_eq_iff)
  have ex2: "exit st2 = False"
    by (rule after_loop_Goto_exit [OF al])
  have es: "exit s" by (simp add: s_def)
  have fl: "for_loop cfg env (ev # evs') st =
                (case MainLoop cfg env st2 of
                   (Ok, st3) \<Rightarrow> for_loop cfg env evs' st3
                 | r \<Rightarrow> r)" for evs'
    by (simp add: for_loop_step [OF running lb] for_loop_leave [OF es] al)
  have w: "fst (for_loop cfg env [ev] st) = Waiting"
    if t: "fst (termbox_Init env (world st2)) = None"
  proof -
    obtain st3 where ml: "MainLoop cfg env st2 = (Ok, st3)" and e3: "exit st3 = False"
      using MainLoop_init_ok [OF t, of cfg] ex2 by (cases "MainLoop cfg env st2") auto
    show ?thesis
      by (simp add: fl ml for_loop_wait [OF e3])
  qed
  have "exit st2 = False
            \<and> for_loop cfg env (ev # evs) st =
                (case MainLoop cfg env st2 of
                   (Ok, st3) \<Rightarrow> for_loop cfg env evs st3
                 | r \<Rightarrow> r)
            \<and> (fst (termbox_Init env (world st2)) = None \<longrightarrow>
                 fst (for_loop cfg env [ev] st) = Waiting)"
    using ex2 fl w by blast
  then show ?thesis
    unfolding Let_def st2_def s_def .
qed

text \<open>
  Claim C3. At the end of every pass of the loop, if the run is not interactive and the
  \<open>State\<close> of the master is \<open>Failed\<close>, the command becomes \<open>failover\<close> and \<open>exit\<close> is set.
  The loop is then left and \<open>failover()\<close> is called on the master. If the URL returned is
  not empty and the index returned names an entry of \<open>slaves\<close>, a monitor for the URL
  becomes the master and the entry is taken out of \<open>slaves\<close>; with an empty URL neither
  changes. In both cases the line about the restart is printed, \<open>main\<close> sleeps five
  seconds, clears \<open>exit\<close> and jumps to \<open>MainLoop\<close>: the block starts again and, once the
  terminal is initialised, the loop waits for the next event. (An index that names no
  entry is Claim C9.)
\<close>

theorem C3_automatic_failover:
  assumes sel: "select_case cfg env ev st = (Ok, st1)"
    and m: "master st1 = Some mp"
    and ni: "interactive cfg = False"
    and failed: "State (heap st1 mp) = STATE_FAILED"
    and running: "exit st = False"
    and res: "do_failover env (heap st1 mp) (world st1) = ((nmUrl, nmKey), w1)"
    and n1: "newServerMonitor env nmUrl w1 = ((m1, e1), w2)"
  shows
    "loop_body cfg env ev st = (Ok, st1\<lparr>command := ''failover'', exit := True\<rparr>)
     \<and> (nmUrl \<noteq> [] \<and> 0 \<le> nmKey \<and> nat nmKey < length (slaves st1) \<longrightarrow>
          after_loop cfg env (st1\<lparr>command := ''failover'', exit := True\<rparr>) =
            (Goto_MainLoop,
             st1\<lparr>command := ''failover'', exit := False, master := Some (nextp st1),
                 slaves := take (nat nmKey) (slaves st1) @ drop (Suc (nat nmKey)) (slaves st1),
                 heap := (heap st1)(nextp st1 := m1), nextp := Suc (nextp st1), world := w2,
                 trace := trace st1 @ [TermboxClose, CallFailover mp]
                   @ (if verbose cfg
                      then [Printf ''DEBUG: Reinstancing new master: %s'' [ArgS nmUrl]]
                      else [])
                   @ [CallNewServerMonitor nmUrl,
                      Println [''###### Restarting monitor console in 5 seconds. Press Ctrl-C to exit''],
                      Sleep 5]\<rparr>))
     \<and> (nmUrl = [] \<longrightarrow>
          after_loop cfg env (st1\<lparr>command := ''failover'', exit := True\<rparr>) =
            (Goto_MainLoop,
             st1\<lparr>command := ''failover'', exit := False, world := w1,
                 trace := trace st1 @ [TermboxClose, CallFailover mp,
                      Println [''###### Restarting monitor console in 5 seconds. Press Ctrl-C to exit''],
                      Sleep 5]\<rparr>))
     \<and> (fst (after_loop cfg env (st1\<lparr>command := ''failover'', exit := True\<rparr>)) = Goto_MainLoop \<longrightarrow>
          (let st2 = snd (after_loop cfg env (st1\<lparr>command := ''failover'', exit := True\<rparr>))
           in exit st2 = False
              \<and> for_loop cfg env (ev # evs) st =
                  (case MainLoop cfg env st2 of
                     (Ok, st3) \<Rightarrow> for_loop cfg env evs st3
                   | r \<Rightarrow> r)
              \<and> (fst (termbox_Init env (world st2)) = None \<longrightarrow>
                   fst (for_loop cfg env [ev] st) = Waiting)))"
proof -
  let ?s = "st1\<lparr>command := ''failover'', exit := True\<rparr>"
  have cmd: "command ?s = ''failover''" and ms: "master ?s = Some mp"
    and ress: "do_failover env (heap ?s mp) (world ?s) = ((nmUrl, nmKey), w1)"
    using m res by simp_all
  have a: "loop_body cfg env ev st = (Ok, ?s)"
    by (rule loop_body_failed [OF sel m ni failed])
  have b: "after_loop cfg env ?s =
            (Goto_MainLoop,
             st1\<lparr>command := ''failover'', exit := False, master := Some (nextp st1),
                 slaves := take (nat nmKey) (slaves st1) @ drop (Suc (nat nmKey)) (slaves st1),
                 heap := (heap st1)(nextp st1 := m1), nextp := Suc (nextp st1), world := w2,
                 trace := trace st1 @ [TermboxClose, CallFailover mp]
                   @ (if verbose cfg
                      then [Printf ''DEBUG: Reinstancing new master: %s'' [ArgS nmUrl]]
                      else [])
                   @ [CallNewServerMonitor nmUrl,
                      Println [''###### Restarting monitor console in 5 seconds. Press Ctrl-C to exit''],
                      Sleep 5]\<rparr>)"
    if "nmUrl \<noteq> [] \<and> 0 \<le> nmKey \<and> nat nmKey < length (slaves st1)"
    using after_loop_failover_success [OF cmd ms ress n1, of cfg] that by simp
  have c: "after_loop cfg env ?s =
            (Goto_MainLoop,
             st1\<lparr>command := ''failover'', exit := False, world := w1,
                 trace := trace st1 @ [TermboxClose, CallFailover mp,
                      Println [''###### Restarting monitor console in 5 seconds. Press Ctrl-C to exit''],
                      Sleep 5]\<rparr>)"
    if "nmUrl = []"
    using after_loop_failover_empty [OF cmd ms ress that, of cfg] by simp
  note d = restart_after_failover [OF sel m ni failed running]
  show ?thesis
    using a b c d by blast
qed

lemma ex_master_failed_fields:
  "master ex_master_failed = Some 0"
  "slaves ex_master_failed = [1, 2]"
  "exit ex_master_failed = False"
  "nextp ex_master_failed = 3"
  "world ex_master_failed = ()"
  "State (heap ex_master_failed 0) = STATE_FAILED"
  by (simp_all add: ex_master_failed_def set_State_def ex_monitoring_fields)

theorem C3_automatic_failover_witness:
  "interactive (ex_cfg ''monitor'' [] False) = False
   \<and> State (heap ex_master_failed 0) = ''Failed''
   \<and> slaves ex_master_failed = [1, 2]
   \<and> loop_body (ex_cfg ''monitor'' [] False) (ex_env [] (''h2'', 0)) Tick ex_master_failed
       = (Ok, (emit Display ex_master_failed)\<lparr>command := ''failover'', exit := True\<rparr>)
   \<and> fst (after_loop (ex_cfg ''monitor'' [] False) (ex_env [] (''h2'', 0))
            ((emit Display ex_master_failed)\<lparr>command := ''failover'', exit := True\<rparr>))
       = Goto_MainLoop
   \<and> slaves (snd (after_loop (ex_cfg ''monitor'' [] False) (ex_env [] (''h2'', 0))
            ((emit Display ex_master_failed)\<lparr>command := ''failover'', exit := True\<rparr>))) = [2]
   \<and> master (snd (after_loop (ex_cfg ''monitor'' [] False) (ex_env [] (''h2'', 0))
            ((emit Display ex_master_failed)\<lparr>command := ''failover'', exit := True\<rparr>))) = Some 3
   \<and> exit (snd (after_loop (ex_cfg ''monitor'' [] False) (ex_env [] (''h2'', 0))
            ((emit Display ex_master_failed)\<lparr>command := ''failover'', exit := True\<rparr>))) = False
   \<and> fst (for_loop (ex_cfg ''monitor'' [] False) (ex_env [] (''h2'', 0)) [Tick] ex_master_failed)
       = Waiting"
proof -
  let ?cfg = "ex_cfg ''monitor'' [] False"
  let ?env = "ex_env [] (''h2'', 0)"
  let ?st1 = "emit Display ex_master_failed"
  let ?s = "?st1\<lparr>command := ''failover'', exit := True\<rparr>"
  have sel: "select_case ?cfg ?env Tick ex_master_failed = (Ok, ?st1)"
    by (simp add: select_case_def ex_env_def ex_master_failed_fields)
  have m: "master ?st1 = Some 0"
    by (simp add: emit_def ex_master_failed_fields)
  have ni: "interactive ?cfg = False"
    by (simp add: ex_cfg_def)
  have failed: "State (heap ?st1 0) = STATE_FAILED"
    by (simp add: emit_def ex_master_failed_fields)
  have res: "do_failover ?env (heap ?st1 0) (world ?st1) = ((''h2'', 0), ())"
    by (simp add: ex_env_def)
  have n1: "newServerMonitor ?env ''h2'' () = ((ex_monitor ''h2'', False), ())"
    by (simp add: ex_env_def)
  note t = C3_automatic_failover [OF sel m ni failed ex_master_failed_fields(3) res n1, of "[]"]
  have c: "''h2'' \<noteq> [] \<and> (0::int) \<le> 0 \<and> nat 0 < length (slaves ?st1)"
    by (simp add: emit_def ex_master_failed_fields)
  note lb = t [THEN conjunct1]
  note al = t [THEN conjunct2, THEN conjunct1, THEN mp, OF c]
  have g: "fst (after_loop ?cfg ?env ?s) = Goto_MainLoop"
    by (simp add: al)
  note re = t [THEN conjunct2, THEN conjunct2, THEN conjunct2, THEN mp, OF g]
  have tb: "fst (termbox_Init ?env (world (snd (after_loop ?cfg ?env ?s)))) = None"
    by (simp add: ex_env_def)
  note w = re [unfolded Let_def, THEN conjunct2, THEN conjunct2, THEN mp, OF tb]
  have p: "slaves (snd (after_loop ?cfg ?env ?s)) = [2]"
    "master (snd (after_loop ?cfg ?env ?s)) = Some 3"
    "exit (snd (after_loop ?cfg ?env ?s)) = False"
    by (simp_all add: al) (simp_all add: emit_def ex_master_failed_fields)
  show ?thesis
    using ni lb g p w by (simp add: ex_master_failed_fields STATE_FAILED_def)
qed

section \<open>The index that \<open>failover()\<close> and \<open>switchover()\<close> return\<close>

text \<open>
  Claim C9. After the loop, with the command \<open>failover\<close>, \<open>main\<close> only tests the URL that
  \<open>failover()\<close> returns. If the URL is not empty and the index is negative or not below
  \<open>len(slaves)\<close>, the slice expression of line 274 panics. The handler of Ctrl-S tests
  \<open>nsKey >= 0\<close> as well: the same answer with a negative index changes no variable of
  the program there.
\<close>

theorem C9_failover_index_unchecked:
  assumes cmd: "command st = ''failover''"
    and m: "master st = Some mp"
    and res: "fst (do_failover env (heap st mp) (world st)) = (nmUrl, nmKey)"
    and url: "nmUrl \<noteq> []"
    and bad: "nmKey < 0 \<or> int (length (slaves st)) \<le> nmKey"
  shows "fst (after_loop cfg env st) = Panic slice_out_of_range
         \<and> (fst (do_switchover env (heap st mp) (world st)) = (nmUrl, nmKey) \<and> nmKey < 0 \<longrightarrow>
              on_CtrlS cfg env st
                = (Ok, st\<lparr>world := snd (do_switchover env (heap st mp) (world st)),
                          trace := trace st @ [CallSwitchover mp]\<rparr>))"
  using assms
  by (auto simp: after_loop_def on_CtrlS_def new_monitor_def emit_def Let_def)

theorem C9_failover_index_unchecked_witness:
  "command ((ex_monitoring False (''h2'', -1))\<lparr>command := ''failover'', exit := True\<rparr>) = ''failover''
   \<and> slaves (ex_monitoring False (''h2'', -1)) = [1, 2]
   \<and> fst (do_failover (ex_env [] (''h2'', -1)) (heap (ex_monitoring False (''h2'', -1)) 0) ())
       = (''h2'', -1)
   \<and> fst (after_loop (ex_cfg ''monitor'' [] False) (ex_env [] (''h2'', -1))
            ((ex_monitoring False (''h2'', -1))\<lparr>command := ''failover'', exit := True\<rparr>))
       = Panic ''runtime error: slice bounds out of range''
   \<and> fst (on_CtrlS (ex_cfg ''monitor'' [] False) (ex_env [] (''h2'', -1))
            ((ex_monitoring False (''h2'', -1))\<lparr>command := ''failover'', exit := True\<rparr>)) = Ok
   \<and> slaves (snd (on_CtrlS (ex_cfg ''monitor'' [] False) (ex_env [] (''h2'', -1))
            ((ex_monitoring False (''h2'', -1))\<lparr>command := ''failover'', exit := True\<rparr>))) = [1, 2]
   \<and> master (snd (on_CtrlS (ex_cfg ''monitor'' [] False) (ex_env [] (''h2'', -1))
            ((ex_monitoring False (''h2'', -1))\<lparr>command := ''failover'', exit := True\<rparr>))) = Some 0"
proof -
  let ?cfg = "ex_cfg ''monitor'' [] False"
  let ?env = "ex_env [] (''h2'', -1)"
  let ?s = "(ex_monitoring False (''h2'', -1))\<lparr>command := ''failover'', exit := True\<rparr>"
  have cmd: "command ?s = ''failover''" by simp
  have m: "master ?s = Some 0" by (simp add: ex_monitoring_fields)
  have res: "fst (do_failover ?env (heap ?s 0) (world ?s)) = (''h2'', -1)"
    by (simp add: ex_env_def)
  have url: "''h2'' \<noteq> []" by simp
  have bad: "(-1::int) < 0 \<or> int (length (slaves ?s)) \<le> -1" by simp
  note t = C9_failover_index_unchecked [OF cmd m res url bad, of ?cfg]
  have sw: "fst (do_switchover ?env (heap ?s 0) (world ?s)) = (''h2'', -1) \<and> (-1::int) < 0"
    by (simp add: ex_env_def)
  note on = t [THEN conjunct2, THEN mp, OF sw]
  have p: "fst (on_CtrlS ?cfg ?env ?s) = Ok" "slaves (snd (on_CtrlS ?cfg ?env ?s)) = [1, 2]"
    "master (snd (on_CtrlS ?cfg ?env ?s)) = Some 0"
    by (simp_all add: on ex_monitoring_fields)
  have r: "fst (do_failover ?env (heap (ex_monitoring False (''h2'', -1)) 0) ()) = (''h2'', -1)"
    by (simp add: ex_env_def)
  show ?thesis
    using t [THEN conjunct1] p r
    by (simp add: ex_monitoring_fields slice_out_of_range_def)
qed

section \<open>Classification\<close>

lemmas host_defs =
  classify_host_def new_monitor_def call_refresh_def emit_def set_State_def Let_def

lemma classify_host_eq:
  assumes r: "newServerMonitor env url (world st) = ((m, err), w1)"
    and r': "refresh env m w1 = (m', w2)"
  shows "classify_host cfg env k url st =
     (if err
      then st\<lparr>servers := (servers st)[k := Some (nextp st)],
              heap := (heap st)(nextp st := m\<lparr>State := STATE_FAILED\<rparr>),
              nextp := Suc (nextp st), world := w1,
              trace := trace st @ [CallNewServerMonitor url]
                @ (if verbose cfg
                   then [Printf ''DEBUG: Creating new server: %v'' [ArgS (URL m)]] else [])
                @ [Printf ''INFO : Server %s is dead.'' [ArgS (URL m)]]\<rparr>
      else if UsingGtid m' \<noteq> []
      then st\<lparr>servers := (servers st)[k := Some (nextp st)],
              slaves := slaves st @ [nextp st],
              heap := (heap st)(nextp st := m'\<lparr>State := STATE_SLAVE\<rparr>),
              nextp := Suc (nextp st), deferred := nextp st # deferred st, world := w2,
              trace := trace st @ [CallNewServerMonitor url]
                @ (if verbose cfg
                   then [Printf ''DEBUG: Creating new server: %v'' [ArgS (URL m)],
                         Printf ''DEBUG: Checking if server %s is slave'' [ArgS (URL m)]]
                   else [])
                @ [CallRefresh (nextp st)]
                @ (if verbose cfg
                   then [Printf ''DEBUG: Server %s is configured as a slave'' [ArgS (URL m')]]
                   else [])\<rparr>
      else st\<lparr>servers := (servers st)[k := Some (nextp st)],
              heap := (heap st)(nextp st := m'),
              nextp := Suc (nextp st), deferred := nextp st # deferred st, world := w2,
              trace := trace st @ [CallNewServerMonitor url]
                @ (if verbose cfg
                   then [Printf ''DEBUG: Creating new server: %v'' [ArgS (URL m)],
                         Printf ''DEBUG: Checking if server %s is slave'' [ArgS (URL m)]]
                   else [])
                @ [CallRefresh (nextp st)]
                @ (if verbose cfg
                   then [Printf ''DEBUG: Server %s is not a slave. Setting aside''
                           [ArgS (URL m')]]
                   else [])\<rparr>)"
  using assms
  by (cases "verbose cfg"; cases err; cases "UsingGtid m' = []"; simp add: host_defs)

lemma classify_host_frame:
  "nextp (classify_host cfg env k url st) = Suc (nextp st)
   \<and> servers (classify_host cfg env k url st) = (servers st)[k := Some (nextp st)]
   \<and> hostList (classify_host cfg env k url st) = hostList st
   \<and> master (classify_host cfg env k url st) = master st
   \<and> exit (classify_host cfg env k url st) = exit st
   \<and> (\<forall>q. q \<noteq> nextp st \<longrightarrow> heap (classify_host cfg env k url st) q = heap st q)
   \<and> CallNewServerMonitor url \<in> set (trace (classify_host cfg env k url st))
   \<and> set (trace st) \<subseteq> set (trace (classify_host cfg env k url st))"
proof -
  obtain m err w1 where r: "newServerMonitor env url (world st) = ((m, err), w1)"
    by (metis prod.collapse)
  obtain m' w2 where r': "refresh env m w1 = (m', w2)"
    by (metis prod.collapse)
  show ?thesis
    by (simp add: classify_host_eq [OF r r']) auto
qed

lemma classify_host_classified:
  assumes c: "node_monitor_contract env"
  shows "classified (heap (classify_host cfg env k url st) (nextp st))
         \<and> slaves (classify_host cfg env k url st)
             = slaves st @ (if State (heap (classify_host cfg env k url st) (nextp st)) = STATE_SLAVE
                            then [nextp st] else [])"
proof -
  obtain m err w1 where r: "newServerMonitor env url (world st) = ((m, err), w1)"
    by (metis prod.collapse)
  obtain m' w2 where r': "refresh env m w1 = (m', w2)"
    by (metis prod.collapse)
  have u: "\<not> err \<Longrightarrow> State m' = STATE_UNCONN"
    using c r r' unfolding node_monitor_contract_def
    by (metis fst_conv snd_conv)
  show ?thesis
    using u
    by (simp add: classify_host_eq [OF r r'] classified_def)
       (simp add: STATE_UNCONN_def STATE_SLAVE_def STATE_FAILED_def)
qed

lemma classify_from_append:
  "classify_from cfg env k (xs @ ys) st
     = classify_from cfg env (k + length xs) ys (classify_from cfg env k xs st)"
  by (induction xs arbitrary: k st) simp_all

lemma classify_from_frame:
  "nextp (classify_from cfg env k urls st) = nextp st + length urls
   \<and> hostList (classify_from cfg env k urls st) = hostList st
   \<and> master (classify_from cfg env k urls st) = master st
   \<and> exit (classify_from cfg env k urls st) = exit st
   \<and> (\<forall>q<nextp st. heap (classify_from cfg env k urls st) q = heap st q)
   \<and> set (trace st) \<subseteq> set (trace (classify_from cfg env k urls st))
   \<and> (\<forall>u\<in>set urls. CallNewServerMonitor u \<in> set (trace (classify_from cfg env k urls st)))"
proof (induction urls arbitrary: k st)
  case Nil
  show ?case by simp
next
  case (Cons u us)
  note h = classify_host_frame [of cfg env k u st]
  note ih = Cons.IH [where k = "Suc k" and st = "classify_host cfg env k u st"]
  show ?case
    using h ih by (simp (no_asm_simp)) blast
qed

lemma classify_from_servers:
  "k + length urls \<le> length (servers st) \<Longrightarrow>
   servers (classify_from cfg env k urls st)
     = take k (servers st) @ map Some [nextp st ..< nextp st + length urls]
       @ drop (k + length urls) (servers st)"
proof (induction urls arbitrary: k st)
  case Nil
  show ?case by simp
next
  case (Cons u us)
  let ?st1 = "classify_host cfg env k u st"
  have s1: "servers ?st1 = (servers st)[k := Some (nextp st)]" and n1: "nextp ?st1 = Suc (nextp st)"
    using classify_host_frame [of cfg env k u st] by simp_all
  from Cons.prems have k: "k < length (servers st)" by simp
  have up: "[nextp st ..< nextp st + length (u # us)]
              = nextp st # [Suc (nextp st) ..< Suc (nextp st) + length us]"
    by (subst upt_rec) simp
  have "servers (classify_from cfg env (Suc k) us ?st1)
     = take (Suc k) (servers ?st1) @ map Some [nextp ?st1 ..< nextp ?st1 + length us]
       @ drop (Suc k + length us) (servers ?st1)"
    using Cons.prems by (intro Cons.IH) (simp add: s1)
  also have "take (Suc k) (servers ?st1) = take k (servers st) @ [Some (nextp st)]"
    using k by (simp add: s1 take_Suc_conv_app_nth)
  also have "drop (Suc k + length us) (servers ?st1) = drop (k + length (u # us)) (servers st)"
    by (simp add: s1)
  finally show ?case
    using up by (simp add: n1 del: upt_Suc)
qed

lemma classify_from_classified:
  assumes c: "node_monitor_contract env"
  shows "(\<forall>p. nextp st \<le> p \<and> p < nextp st + length urls \<longrightarrow>
              classified (heap (classify_from cfg env k urls st) p))
         \<and> slaves (classify_from cfg env k urls st)
             = slaves st @ filter (\<lambda>p. State (heap (classify_from cfg env k urls st) p) = STATE_SLAVE)
                             [nextp st ..< nextp st + length urls]"
proof (induction urls arbitrary: k st)
  case Nil
  show ?case by auto
next
  case (Cons u us)
  let ?st1 = "classify_host cfg env k u st"
  let ?st2 = "classify_from cfg env (Suc k) us ?st1"
  have n1: "nextp ?st1 = Suc (nextp st)"
    using classify_host_frame [of cfg env k u st] by simp
  have keep: "heap ?st2 (nextp st) = heap ?st1 (nextp st)"
    using classify_from_frame [of cfg env "Suc k" us ?st1] by (simp add: n1)
  note h = classify_host_classified [OF c, of cfg k u st]
  note ih = Cons.IH [where k = "Suc k" and st = ?st1]
  have a: "classified (heap ?st2 p)" if "nextp st \<le> p \<and> p < nextp st + length (u # us)" for p
  proof (cases "p = nextp st")
    case True
    then show ?thesis using h keep by simp
  next
    case False
    with that have "nextp ?st1 \<le> p \<and> p < nextp ?st1 + length us" by (simp add: n1)
    then show ?thesis using ih by blast
  qed
  have b: "slaves ?st2 = slaves st @ filter (\<lambda>p. State (heap ?st2 p) = STATE_SLAVE)
                             [nextp st ..< nextp st + length (u # us)]"
  proof -
    have up: "[nextp st ..< Suc (nextp st + length us)]
                = nextp st # [Suc (nextp st) ..< Suc (nextp st + length us)]"
      by (subst upt_rec) simp
    show ?thesis
      using h ih by (simp add: n1 keep up del: upt_Suc)
  qed
  show ?case using a b by simp
qed


lemma classify_snd:
  "snd (classify cfg env st)
     = classify_from cfg env 0 (hostList st)
         (st\<lparr>servers := replicate (length (hostList st)) None\<rparr>)"
  by (simp add: classify_def Let_def)

lemma classify_host_new:
  "heap (classify_host cfg env k url st) (nextp st) =
     (let r = newServerMonitor env url (world st);
          r' = refresh env (fst (fst r)) (snd r)
      in if snd (fst r) then (fst (fst r))\<lparr>State := STATE_FAILED\<rparr>
         else if UsingGtid (fst r') \<noteq> [] then (fst r')\<lparr>State := STATE_SLAVE\<rparr>
         else fst r')"
proof -
  have r: "newServerMonitor env url (world st)
       = ((fst (fst (newServerMonitor env url (world st))),
           snd (fst (newServerMonitor env url (world st)))),
          snd (newServerMonitor env url (world st)))"
    by simp
  have r': "refresh env (fst (fst (newServerMonitor env url (world st))))
              (snd (newServerMonitor env url (world st)))
       = (fst (refresh env (fst (fst (newServerMonitor env url (world st))))
                 (snd (newServerMonitor env url (world st)))),
          snd (refresh env (fst (fst (newServerMonitor env url (world st))))
                 (snd (newServerMonitor env url (world st)))))"
    by simp
  show ?thesis
    by (simp add: classify_host_eq [OF r r'] Let_def)
qed

lemma classify_from_nth:
  assumes k: "k < length urls"
  shows "nextp (classify_from cfg env j (take k urls) st) = nextp st + k
         \<and> heap (classify_from cfg env j urls st) (nextp st + k)
             = heap (classify_host cfg env (j + k) (urls ! k)
                       (classify_from cfg env j (take k urls) st)) (nextp st + k)"
proof -
  let ?pre = "classify_from cfg env j (take k urls) st"
  let ?mid = "classify_host cfg env (j + k) (urls ! k) ?pre"
  have n: "nextp ?pre = nextp st + k"
    using classify_from_frame [of cfg env j "take k urls" st] k by simp
  have split: "urls = take k urls @ (urls ! k) # drop (Suc k) urls"
    using k by (simp add: id_take_nth_drop [symmetric])
  have "classify_from cfg env j urls st
          = classify_from cfg env j (take k urls @ (urls ! k) # drop (Suc k) urls) st"
    using split by simp
  also have "\<dots> = classify_from cfg env (Suc (j + k)) (drop (Suc k) urls) ?mid"
    using k by (simp add: classify_from_append)
  finally have e: "classify_from cfg env j urls st
          = classify_from cfg env (Suc (j + k)) (drop (Suc k) urls) ?mid" .
  have "nextp ?mid = Suc (nextp st + k)"
    using classify_host_frame [of cfg env "j + k" "urls ! k" ?pre] n by simp
  then have "heap (classify_from cfg env (Suc (j + k)) (drop (Suc k) urls) ?mid) (nextp st + k)
               = heap ?mid (nextp st + k)"
    using classify_from_frame [of cfg env "Suc (j + k)" "drop (Suc k) urls" ?mid] by simp
  with n e show ?thesis by simp
qed

text \<open>
  Claim C7. For a node monitor as the spec describes it, classification never ends the
  run and leaves one monitor per host, in host-list order: \<open>servers\<close> has as many
  entries as \<open>hostList\<close>, entry \<open>k\<close> being the monitor created for host \<open>k\<close>. Every one
  of them is in exactly one of the states \<open>Failed\<close>, \<open>Slave\<close> (with \<open>UsingGtid\<close> not empty)
  and \<open>Unconnected\<close> (with \<open>UsingGtid\<close> empty); the three names differ. Which one is
  decided when the loop reaches the host: \<open>Failed\<close> if the connection fails there (the
  loop goes on with the next host), \<open>Slave\<close> if it succeeds and the refresh reports
  \<open>UsingGtid\<close>, \<open>Unconnected\<close> otherwise. \<open>slaves\<close> grows by exactly the monitors in state
  \<open>Slave\<close>, in host-list order.
\<close>

theorem C7_classification:
  assumes c: "node_monitor_contract env"
  shows "fst (classify cfg env st) = Ok
     \<and> hostList (snd (classify cfg env st)) = hostList st
     \<and> servers (snd (classify cfg env st))
         = map Some [nextp st ..< nextp st + length (hostList st)]
     \<and> (\<forall>p. nextp st \<le> p \<and> p < nextp st + length (hostList st) \<longrightarrow>
             classified (heap (snd (classify cfg env st)) p))
     \<and> slaves (snd (classify cfg env st))
         = slaves st @ filter (\<lambda>p. State (heap (snd (classify cfg env st)) p) = STATE_SLAVE)
                         [nextp st ..< nextp st + length (hostList st)]
     \<and> (\<forall>k<length (hostList st).
           let pre = classify_from cfg env 0 (take k (hostList st))
                       (st\<lparr>servers := replicate (length (hostList st)) None\<rparr>);
               r = newServerMonitor env (hostList st ! k) (world pre);
               r' = refresh env (fst (fst r)) (snd r);
               mk = heap (snd (classify cfg env st)) (nextp st + k)
           in if snd (fst r) then mk = (fst (fst r))\<lparr>State := STATE_FAILED\<rparr>
              else if UsingGtid (fst r') \<noteq> [] then mk = (fst r')\<lparr>State := STATE_SLAVE\<rparr>
              else mk = fst r' \<and> State mk = STATE_UNCONN)
     \<and> distinct [STATE_SLAVE, STATE_FAILED, STATE_UNCONN]"
proof -
  let ?st0 = "st\<lparr>servers := replicate (length (hostList st)) None\<rparr>"
  let ?st' = "classify_from cfg env 0 (hostList st) ?st0"
  have s: "snd (classify cfg env st) = ?st'"
    by (rule classify_snd)
  have 1: "fst (classify cfg env st) = Ok"
    by (rule classify_Ok)
  have 2: "hostList ?st' = hostList st"
    using classify_from_frame [of cfg env 0 "hostList st" ?st0] by simp
  have 3: "servers ?st' = map Some [nextp st ..< nextp st + length (hostList st)]"
    using classify_from_servers [of 0 "hostList st" ?st0 cfg env] by simp
  have 45: "(\<forall>p. nextp st \<le> p \<and> p < nextp st + length (hostList st) \<longrightarrow>
                classified (heap ?st' p))
        \<and> slaves ?st' = slaves st @ filter (\<lambda>p. State (heap ?st' p) = STATE_SLAVE)
                         [nextp st ..< nextp st + length (hostList st)]"
    using classify_from_classified [OF c, of ?st0 "hostList st" cfg 0] by simp
  have 6: "let pre = classify_from cfg env 0 (take k (hostList st)) ?st0;
               r = newServerMonitor env (hostList st ! k) (world pre);
               r' = refresh env (fst (fst r)) (snd r);
               mk = heap ?st' (nextp st + k)
           in if snd (fst r) then mk = (fst (fst r))\<lparr>State := STATE_FAILED\<rparr>
              else if UsingGtid (fst r') \<noteq> [] then mk = (fst r')\<lparr>State := STATE_SLAVE\<rparr>
              else mk = fst r' \<and> State mk = STATE_UNCONN"
    if k: "k < length (hostList st)" for k
  proof -
    let ?pre = "classify_from cfg env 0 (take k (hostList st)) ?st0"
    let ?r = "newServerMonitor env (hostList st ! k) (world ?pre)"
    let ?r' = "refresh env (fst (fst ?r)) (snd ?r)"
    have n: "nextp ?pre = nextp st + k"
      and h: "heap ?st' (nextp st + k)
                = heap (classify_host cfg env k (hostList st ! k) ?pre) (nextp st + k)"
      using classify_from_nth [OF k, of cfg env 0 ?st0] by simp_all
    have v: "heap ?st' (nextp st + k) =
               (if snd (fst ?r) then (fst (fst ?r))\<lparr>State := STATE_FAILED\<rparr>
                else if UsingGtid (fst ?r') \<noteq> [] then (fst ?r')\<lparr>State := STATE_SLAVE\<rparr>
                else fst ?r')"
      using classify_host_new [of cfg env k "hostList st ! k" ?pre] n h
      by (simp add: Let_def)
    have u: "\<not> snd (fst ?r) \<Longrightarrow> State (fst ?r') = STATE_UNCONN"
      using c unfolding node_monitor_contract_def by simp
    show ?thesis
      unfolding Let_def using v u by simp
  qed
  have 7: "distinct [STATE_SLAVE, STATE_FAILED, STATE_UNCONN]"
    by (simp add: STATE_SLAVE_def STATE_FAILED_def STATE_UNCONN_def)
  show ?thesis
    unfolding s using 1 2 3 45 6 7 by blast
qed

theorem C7_classification_witness:
  "node_monitor_contract (ex_env [''h3''] ([], -1))
   \<and> hostList ex_parsed = [''h1'', ''h2'', ''h3'']
   \<and> fst (classify (ex_cfg ''monitor'' [] True) (ex_env [''h3''] ([], -1)) ex_parsed) = Ok
   \<and> servers (snd (classify (ex_cfg ''monitor'' [] True) (ex_env [''h3''] ([], -1)) ex_parsed))
       = [Some 0, Some 1, Some 2]
   \<and> State (heap (snd (classify (ex_cfg ''monitor'' [] True) (ex_env [''h3''] ([], -1))
                          ex_parsed)) 0) = ''Unconnected''
   \<and> State (heap (snd (classify (ex_cfg ''monitor'' [] True) (ex_env [''h3''] ([], -1))
                          ex_parsed)) 1) = ''Slave''
   \<and> State (heap (snd (classify (ex_cfg ''monitor'' [] True) (ex_env [''h3''] ([], -1))
                          ex_parsed)) 2) = ''Failed''
   \<and> slaves (snd (classify (ex_cfg ''monitor'' [] True) (ex_env [''h3''] ([], -1)) ex_parsed))
       = [1]"
proof -
  let ?cfg = "ex_cfg ''monitor'' [] True"
  let ?env = "ex_env [''h3''] ([], -1)"
  have c: "node_monitor_contract ?env"
    by (simp add: node_monitor_contract_def ex_env_def ex_monitor_def)
  note t = C7_classification [OF c, of ?cfg ex_parsed]
  have ok: "fst (classify ?cfg ?env ex_parsed) = Ok"
    using t by simp
  have h: "hostList ex_parsed = [''h1'', ''h2'', ''h3'']"
    by (simp add: ex_parsed_def ex_defs model_defs)
  have v: "servers (snd (classify ?cfg ?env ex_parsed)) = [Some 0, Some 1, Some 2]"
    "State (heap (snd (classify ?cfg ?env ex_parsed)) 0) = ''Unconnected''"
    "State (heap (snd (classify ?cfg ?env ex_parsed)) 1) = ''Slave''"
    "State (heap (snd (classify ?cfg ?env ex_parsed)) 2) = ''Failed''"
    "slaves (snd (classify ?cfg ?env ex_parsed)) = [1]"
    by (simp_all add: ex_parsed_def ex_defs model_defs)
  show ?thesis
    using c ok h v by simp
qed

section \<open>The failover modes \<open>check\<close> and \<open>monitor\<close>\<close>

lemma for_loop_cfg_cong:
  assumes lb: "\<And>ev st. loop_body c1 env ev st = loop_body c2 env ev st"
    and al: "\<And>st. after_loop c1 env st = after_loop c2 env st"
    and ml: "\<And>st. MainLoop c1 env st = MainLoop c2 env st"
  shows "for_loop c1 env evs st = for_loop c2 env evs st"
  using assms
proof (induction c2 env evs st rule: for_loop.induct)
  case (1 cfg env evs st)
  show ?case
  proof (cases "exit st")
    case False
    then have ne: "exit st = False" by simp
    show ?thesis
    proof (cases evs)
      case Nil
      with ne show ?thesis by (simp add: for_loop_wait)
    next
      case (Cons ev evs')
      obtain r st1 where b: "loop_body cfg env ev st = (r, st1)"
        by (cases "loop_body cfg env ev st")
      then have b1: "loop_body c1 env ev st = (r, st1)"
        using "1.prems"(1) by simp
      show ?thesis
      proof (cases "r = Ok")
        case True
        have e: "(Ok, st1) = loop_body cfg env ev st"
          using b True by simp
        have "for_loop c1 env evs' st1 = for_loop cfg env evs' st1"
          by (rule "1.IH"(1) [OF ne Cons e refl "1.prems"])
        then show ?thesis
          using ne Cons b b1 True by (simp add: for_loop_step)
      next
        case neq: False
        show ?thesis
          using Cons for_loop_stop [OF ne b neq] for_loop_stop [OF ne b1 neq] by simp
      qed
    qed
  next
    case True
    then have ex: "exit st \<noteq> False" by simp
    obtain r st2 where a: "after_loop cfg env st = (r, st2)"
      by (cases "after_loop cfg env st")
    then have a1: "after_loop c1 env st = (r, st2)"
      using "1.prems"(2) by simp
    show ?thesis
    proof (cases "r = Goto_MainLoop")
      case g: True
      obtain r' st3 where m: "MainLoop cfg env st2 = (r', st3)"
        by (cases "MainLoop cfg env st2")
      then have m1: "MainLoop c1 env st2 = (r', st3)"
        using "1.prems"(3) by simp
      show ?thesis
      proof (cases "r' = Ok")
        case ok: True
        have e1: "(Goto_MainLoop, st2) = after_loop cfg env st"
          using a g by simp
        have e2: "(Ok, st3) = MainLoop cfg env st2"
          using m ok by simp
        have "for_loop c1 env evs st3 = for_loop cfg env evs st3"
          by (rule "1.IH"(2) [OF ex e1 refl e2 refl "1.prems"])
        then show ?thesis
          using True a a1 g m m1 ok by (simp add: for_loop_leave)
      next
        case False
        then show ?thesis
          using True a a1 g m m1 by (cases r') (simp_all add: for_loop_leave)
      qed
    next
      case False
      then show ?thesis
        using True a a1 by (cases r) (simp_all add: for_loop_leave)
    qed
  qed
qed

lemma flag_fields:
  "verbose (cfg\<lparr>failover := f\<rparr>) = verbose cfg"
  "interactive (cfg\<lparr>failover := f\<rparr>) = interactive cfg"
  "switchover (cfg\<lparr>failover := f\<rparr>) = switchover cfg"
  "prefMaster (cfg\<lparr>failover := f\<rparr>) = prefMaster cfg"
  "failover (cfg\<lparr>failover := f\<rparr>) = f"
  by simp_all

lemma on_CtrlS_failover_flag:
  "on_CtrlS (cfg\<lparr>failover := f\<rparr>) env st = on_CtrlS cfg env st"
  unfolding on_CtrlS_def flag_fields by (rule refl)

lemma key_pressed_failover_flag:
  "key_pressed (cfg\<lparr>failover := f\<rparr>) env key st = key_pressed cfg env key st"
  unfolding key_pressed_def on_CtrlS_failover_flag by (rule refl)

lemma select_case_failover_flag:
  "select_case (cfg\<lparr>failover := f\<rparr>) env ev st = select_case cfg env ev st"
  unfolding select_case_def key_pressed_failover_flag by (rule refl)

lemma failure_check_failover_flag:
  "failure_check (cfg\<lparr>failover := f\<rparr>) st = failure_check cfg st"
  unfolding failure_check_def flag_fields by (rule refl)

lemma loop_body_failover_flag:
  "loop_body (cfg\<lparr>failover := f\<rparr>) env ev st = loop_body cfg env ev st"
  unfolding loop_body_def select_case_failover_flag failure_check_failover_flag by (rule refl)

lemma after_loop_failover_flag:
  "after_loop (cfg\<lparr>failover := f\<rparr>) env st = after_loop cfg env st"
  unfolding after_loop_def flag_fields by (rule refl)

lemma MainLoop_failover_flag:
  assumes "f \<noteq> []" "g \<noteq> []"
  shows "MainLoop (cfg\<lparr>failover := f\<rparr>) env st = MainLoop (cfg\<lparr>failover := g\<rparr>) env st"
proof -
  have a: "(failover (cfg\<lparr>failover := f\<rparr>) \<noteq> []) = True"
    and b: "(failover (cfg\<lparr>failover := g\<rparr>) \<noteq> []) = True"
    using assms by simp_all
  show ?thesis
    unfolding MainLoop_def a b by (rule refl)
qed

lemma classify_host_failover_flag:
  "classify_host (cfg\<lparr>failover := f\<rparr>) env k url st = classify_host cfg env k url st"
  unfolding classify_host_def flag_fields by (rule refl)

lemma classify_from_failover_flag:
  "classify_from (cfg\<lparr>failover := f\<rparr>) env k urls st = classify_from cfg env k urls st"
  by (induction urls arbitrary: k st) (simp_all add: classify_host_failover_flag)

lemma classify_failover_flag:
  "classify (cfg\<lparr>failover := f\<rparr>) env st = classify cfg env st"
  unfolding classify_def classify_from_failover_flag by (rule refl)

lemma check_slave_failover_flag:
  "check_slave (cfg\<lparr>failover := f\<rparr>) env mp sl st = check_slave cfg env mp sl st"
  unfolding check_slave_def flag_fields by (rule refl)

lemma check_slaves_loop_failover_flag:
  "check_slaves_loop (cfg\<lparr>failover := f\<rparr>) env mp sls st = check_slaves_loop cfg env mp sls st"
  by (induction sls arbitrary: st) (simp_all add: check_slave_failover_flag)

lemma check_slaves_failover_flag:
  "check_slaves (cfg\<lparr>failover := f\<rparr>) env st = check_slaves cfg env st"
  unfolding check_slaves_def check_slaves_loop_failover_flag by (rule refl)

lemma check_prefMaster_failover_flag:
  "check_prefMaster (cfg\<lparr>failover := f\<rparr>) st = check_prefMaster cfg st"
  unfolding check_prefMaster_def flag_fields by (rule refl)

lemma parse_flags_check_monitor:
  "parse_flags (cfg\<lparr>failover := ''check''\<rparr>) env st
     = parse_flags (cfg\<lparr>failover := ''monitor''\<rparr>) env st"
  by (simp add: parse_flags_def failOptions_def Let_def)


lemma for_loop_failover_flag:
  assumes f: "f \<noteq> []" and g: "g \<noteq> []"
  shows "for_loop (cfg\<lparr>failover := f\<rparr>) env evs st
           = for_loop (cfg\<lparr>failover := g\<rparr>) env evs st"
proof (rule for_loop_cfg_cong)
  show "loop_body (cfg\<lparr>failover := f\<rparr>) env ev st = loop_body (cfg\<lparr>failover := g\<rparr>) env ev st"
    for ev st
    by (simp only: loop_body_failover_flag)
  show "after_loop (cfg\<lparr>failover := f\<rparr>) env st = after_loop (cfg\<lparr>failover := g\<rparr>) env st"
    for st
    by (simp only: after_loop_failover_flag)
  show "MainLoop (cfg\<lparr>failover := f\<rparr>) env st = MainLoop (cfg\<lparr>failover := g\<rparr>) env st"
    for st
    by (rule MainLoop_failover_flag [OF f g])
qed

lemma dispatch_check_monitor:
  "dispatch (cfg\<lparr>failover := ''check''\<rparr>) env evs st
     = dispatch (cfg\<lparr>failover := ''monitor''\<rparr>) env evs st"
proof -
  have m: "MainLoop (cfg\<lparr>failover := ''check''\<rparr>) env = MainLoop (cfg\<lparr>failover := ''monitor''\<rparr>) env"
    by (rule ext) (rule MainLoop_failover_flag; simp)
  have l: "for_loop (cfg\<lparr>failover := ''check''\<rparr>) env evs
             = for_loop (cfg\<lparr>failover := ''monitor''\<rparr>) env evs"
    by (rule ext) (rule for_loop_failover_flag; simp)
  show ?thesis
    unfolding dispatch_def flag_fields m l by simp
qed

lemma dispatch_monitoring:
  assumes "f = ''check'' \<or> f = ''monitor''" and "switchover cfg = [] \<or> interactive cfg"
  shows "dispatch (cfg\<lparr>failover := f\<rparr>) env evs st
     = run_phases [MainLoop (cfg\<lparr>failover := f\<rparr>) env, for_loop (cfg\<lparr>failover := f\<rparr>) env evs] st"
  using assms unfolding dispatch_def flag_fields by auto

lemma MainLoop_trace:
  assumes "fst (termbox_Init env (world st)) = None" and "failover cfg \<noteq> []"
  shows "fst (MainLoop cfg env st) = Ok
         \<and> trace (snd (MainLoop cfg env st))
             = trace st @ [TermboxInit, NewTermLog 20,
                           TlogAdd ''Monitor started in failover mode'', NewTicker 3]"
  using assms by (simp add: MainLoop_def Let_def emit_def)

lemma locate_master_monitor:
  "locate_master (cfg\<lparr>failover := ''monitor''\<rparr>) st
     = (case slaves st of
          [] \<Rightarrow> (Panic index_out_of_range, st)
        | s0 # _ \<Rightarrow> scan_unconn (cfg\<lparr>failover := ''monitor''\<rparr>) (MasterServerId (heap st s0))
                     (servers st) st)"
  by (simp add: locate_master_def)

lemma locate_master_check:
  "switchover cfg = [] \<Longrightarrow>
   locate_master (cfg\<lparr>failover := ''check''\<rparr>) st
     = (case slaves st of
          [] \<Rightarrow> (Panic index_out_of_range, st)
        | s0 # _ \<Rightarrow> scan_failed (cfg\<lparr>failover := ''check''\<rparr>) (MasterHost (heap st s0))
                     (servers st) st)"
  by (simp add: locate_master_def)

text \<open>
  Claim C10, as amended. The flags, the classification, the test of the slaves, the
  test of the preferred master and everything from line 207 on treat the failover
  modes \<open>check\<close> and \<open>monitor\<close> alike: neither takes a direct branch unless a switchover
  mode is set (which the flags exclude), both run the monitoring loop from \<open>MainLoop\<close>,
  and both log "Monitor started in failover mode". The locator of line 149 tells them
  apart: \<open>monitor\<close> looks for the master among the \<open>Unconnected\<close> servers by server id,
  \<open>check\<close> among the \<open>Failed\<close> servers by host or IP.
\<close>

theorem C10_check_differs_from_monitor_in_locator:
  "parse_flags (cfg\<lparr>failover := ''check''\<rparr>) env st
     = parse_flags (cfg\<lparr>failover := ''monitor''\<rparr>) env st
   \<and> classify (cfg\<lparr>failover := ''check''\<rparr>) env st
     = classify (cfg\<lparr>failover := ''monitor''\<rparr>) env st
   \<and> check_slaves (cfg\<lparr>failover := ''check''\<rparr>) env st
     = check_slaves (cfg\<lparr>failover := ''monitor''\<rparr>) env st
   \<and> check_prefMaster (cfg\<lparr>failover := ''check''\<rparr>) st
     = check_prefMaster (cfg\<lparr>failover := ''monitor''\<rparr>) st
   \<and> dispatch (cfg\<lparr>failover := ''check''\<rparr>) env evs st
     = dispatch (cfg\<lparr>failover := ''monitor''\<rparr>) env evs st
   \<and> (switchover cfg = [] \<or> interactive cfg \<longrightarrow>
        dispatch (cfg\<lparr>failover := ''check''\<rparr>) env evs st
          = run_phases [MainLoop (cfg\<lparr>failover := ''check''\<rparr>) env,
                        for_loop (cfg\<lparr>failover := ''check''\<rparr>) env evs] st)
   \<and> (fst (termbox_Init env (world st)) = None \<longrightarrow>
        trace (snd (MainLoop (cfg\<lparr>failover := ''check''\<rparr>) env st))
          = trace st @ [TermboxInit, NewTermLog 20,
                        TlogAdd ''Monitor started in failover mode'', NewTicker 3]
        \<and> trace (snd (MainLoop (cfg\<lparr>failover := ''monitor''\<rparr>) env st))
          = trace st @ [TermboxInit, NewTermLog 20,
                        TlogAdd ''Monitor started in failover mode'', NewTicker 3])
   \<and> locate_master (cfg\<lparr>failover := ''monitor''\<rparr>) st
       = (case slaves st of
            [] \<Rightarrow> (Panic index_out_of_range, st)
          | s0 # _ \<Rightarrow> scan_unconn (cfg\<lparr>failover := ''monitor''\<rparr>) (MasterServerId (heap st s0))
                       (servers st) st)
   \<and> (switchover cfg = [] \<longrightarrow>
        locate_master (cfg\<lparr>failover := ''check''\<rparr>) st
          = (case slaves st of
               [] \<Rightarrow> (Panic index_out_of_range, st)
             | s0 # _ \<Rightarrow> scan_failed (cfg\<lparr>failover := ''check''\<rparr>) (MasterHost (heap st s0))
                          (servers st) st))"
proof -
  have t: "fst (termbox_Init env (world st)) = None \<Longrightarrow>
        trace (snd (MainLoop (cfg\<lparr>failover := f\<rparr>) env st))
          = trace st @ [TermboxInit, NewTermLog 20,
                        TlogAdd ''Monitor started in failover mode'', NewTicker 3]"
    if "f \<noteq> []" for f
    using MainLoop_trace [of env st "cfg\<lparr>failover := f\<rparr>"] that by simp
  have d: "switchover cfg = [] \<or> interactive cfg \<Longrightarrow>
        dispatch (cfg\<lparr>failover := ''check''\<rparr>) env evs st
          = run_phases [MainLoop (cfg\<lparr>failover := ''check''\<rparr>) env,
                        for_loop (cfg\<lparr>failover := ''check''\<rparr>) env evs] st"
    by (rule dispatch_monitoring) simp_all
  show ?thesis
    using parse_flags_check_monitor [of cfg env st] dispatch_check_monitor [of cfg env evs st]
      t [of "''check''"] t [of "''monitor''"] d
      locate_master_monitor [of cfg st] locate_master_check [of cfg st]
    by (simp only: classify_failover_flag check_slaves_failover_flag
        check_prefMaster_failover_flag) simp
qed

text \<open>
  Claim C10 as stated fails: with all three hosts alive, mode \<open>monitor\<close> finds the master
  and waits in the monitoring loop, mode \<open>check\<close> ends in the fatal error of line 182.
\<close>

theorem C10_counterexample:
  "fst (main (ex_cfg ''monitor'' [] True) (ex_env [] ([], -1)) [] ()) = Waiting
   \<and> fst (main (ex_cfg ''check'' [] True) (ex_env [] ([], -1)) [] ())
       = Fatal ''ERROR: Could not autodetect a master!''"
  by (simp add: ex_defs model_defs for_loop_wait)

theorem C10_check_differs_from_monitor_in_locator_witness:
  "switchover (ex_cfg ''check'' [] True) = []
   \<and> master (snd (locate_master (ex_cfg ''check'' [] True) (ex_classified ''check'' [''h1''])))
       = Some 0
   \<and> master (snd (locate_master (ex_cfg ''monitor'' [] True) (ex_classified ''check'' [''h1''])))
       = None
   \<and> dispatch (ex_cfg ''check'' [] True) (ex_env [''h1''] ([], -1)) [] ex_check_located
       = dispatch (ex_cfg ''monitor'' [] True) (ex_env [''h1''] ([], -1)) [] ex_check_located
   \<and> fst (dispatch (ex_cfg ''check'' [] True) (ex_env [''h1''] ([], -1)) [] ex_check_located)
       = Waiting"
proof -
  let ?cfg = "ex_cfg ''check'' [] True"
  let ?env = "ex_env [''h1''] ([], -1)"
  have e: "?cfg\<lparr>failover := ''check''\<rparr> = ex_cfg ''check'' [] True"
    "?cfg\<lparr>failover := ''monitor''\<rparr> = ex_cfg ''monitor'' [] True"
    by (simp_all add: ex_cfg_def)
  note t = C10_check_differs_from_monitor_in_locator [of ?cfg ?env ex_check_located "[]",
      unfolded e]
  have d: "dispatch (ex_cfg ''check'' [] True) ?env [] ex_check_located
       = dispatch (ex_cfg ''monitor'' [] True) ?env [] ex_check_located"
    using t by blast
  have s: "switchover ?cfg = []"
    by (simp add: ex_cfg_def)
  have l: "master (snd (locate_master (ex_cfg ''check'' [] True) (ex_classified ''check'' [''h1''])))
       = Some 0"
    "master (snd (locate_master (ex_cfg ''monitor'' [] True) (ex_classified ''check'' [''h1''])))
       = None"
    by (simp_all add: ex_defs model_defs)
  have w: "fst (dispatch (ex_cfg ''check'' [] True) ?env [] ex_check_located) = Waiting"
    by (simp add: ex_check_located_def ex_defs model_defs for_loop_wait)
  show ?thesis
    using s l d w by simp
qed

section \<open>The preferred master\<close>

lemma ret_iff: "ret xs pm \<longleftrightarrow> pm \<in> set xs"
  by (induction xs) auto

lemma check_prefMaster_iff:
  "check_prefMaster cfg st =
     (if prefMaster cfg \<noteq> [] \<and> prefMaster cfg \<notin> set (hostList st)
      then (Fatal ''ERROR: Preferred master is not included in the hosts option'', st)
      else (Ok, st))"
  by (simp add: check_prefMaster_def ret_iff)

lemma run_phases_Ok_Cons:
  "run_phases (f # fs) s = (Ok, s') \<Longrightarrow> \<exists>s1. f s = (Ok, s1) \<and> run_phases fs s1 = (Ok, s')"
  by (cases "f s") (auto split: outcome.splits)

lemma run_phases_append:
  "run_phases (fs @ gs) s =
     (case run_phases fs s of
        (Ok, s') \<Rightarrow> run_phases gs s'
      | r \<Rightarrow> r)"
proof (induction fs arbitrary: s)
  case Nil
  show ?case by simp
next
  case (Cons f fs)
  obtain r s1 where f: "f s = (r, s1)" by (cases "f s")
  show ?case
    using Cons.IH [of s1] f by (cases r) simp_all
qed

lemma parse_flags_hostList:
  "parse_flags cfg env st = (Ok, st1) \<Longrightarrow> hostList st1 = Split (hosts cfg) (CHR '','')"
  by (auto simp: parse_flags_def Let_def emit_def split: if_splits)

lemma classify_connects:
  assumes "classify cfg env st = (Ok, st1)"
  shows "hostList st1 = hostList st
         \<and> (\<forall>u\<in>set (hostList st). CallNewServerMonitor u \<in> set (trace st1))"
proof -
  have "st1 = snd (classify cfg env st)" using assms by simp
  then show ?thesis
    using classify_from_frame [of cfg env 0 "hostList st"
        "st\<lparr>servers := replicate (length (hostList st)) None\<rparr>"]
    by (simp add: classify_snd)
qed

lemma check_siblings_same:
  "check_siblings env st = (Ok, st1) \<Longrightarrow> st1 = st"
  by (simp add: check_siblings_def check_siblings_loop_iff split: if_splits)

lemma elect_keeps:
  "hostList (elect cfg p st) = hostList st \<and> set (trace st) \<subseteq> set (trace (elect cfg p st))"
  by (auto simp: elect_def set_State_def emit_def Let_def)

lemma scan_unconn_keeps:
  "scan_unconn cfg sid ss st = (r, st1) \<Longrightarrow>
   hostList st1 = hostList st \<and> set (trace st) \<subseteq> set (trace st1)"
  by (induction cfg sid ss st rule: scan_unconn.induct)
     (auto simp: elect_keeps split: if_splits dest: subsetD [OF elect_keeps [THEN conjunct2]])

lemma scan_failed_keeps:
  "scan_failed cfg smh ss st = (r, st1) \<Longrightarrow>
   hostList st1 = hostList st \<and> set (trace st) \<subseteq> set (trace st1)"
  by (induction cfg smh ss st rule: scan_failed.induct)
     (auto simp: elect_keeps split: if_splits dest: subsetD [OF elect_keeps [THEN conjunct2]])

lemma locate_master_keeps:
  "locate_master cfg st = (r, st1) \<Longrightarrow>
   hostList st1 = hostList st \<and> set (trace st) \<subseteq> set (trace st1)"
  unfolding locate_master_def
  by (auto split: if_splits list.splits dest: scan_unconn_keeps scan_failed_keeps)

lemma check_master_same:
  "check_master st = (Ok, st1) \<Longrightarrow> st1 = st"
  by (simp add: check_master_def split: if_splits)

lemma check_slave_keeps:
  "hostList (check_slave cfg env mp sl st) = hostList st
   \<and> set (trace st) \<subseteq> set (trace (check_slave cfg env mp sl st))"
  by (auto simp: check_slave_def emit_def Let_def)

lemma check_slaves_loop_keeps:
  "hostList (check_slaves_loop cfg env mp sls st) = hostList st
   \<and> set (trace st) \<subseteq> set (trace (check_slaves_loop cfg env mp sls st))"
proof (induction sls arbitrary: st)
  case Nil
  show ?case by simp
next
  case (Cons sl sls)
  show ?case
    using Cons.IH [of "check_slave cfg env mp sl st"] check_slave_keeps [of cfg env mp sl st]
    by auto
qed

lemma check_slaves_keeps:
  "check_slaves cfg env st = (r, st1) \<Longrightarrow>
   hostList st1 = hostList st \<and> set (trace st) \<subseteq> set (trace st1)"
  unfolding check_slaves_def
  using check_slaves_loop_keeps [of cfg env _ "slaves st" st]
  by (auto split: option.splits if_splits)

lemma bootstrap_connects:
  assumes "run_phases [parse_flags cfg env, classify cfg env, check_siblings env,
                       locate_master cfg, check_master, check_slaves cfg env] (init_state w)
             = (Ok, st6)"
  shows "hostList st6 = Split (hosts cfg) (CHR '','')
         \<and> (\<forall>u\<in>set (hostList st6). CallNewServerMonitor u \<in> set (trace st6))"
proof -
  from run_phases_Ok_Cons [OF assms] obtain st1 where
    1: "parse_flags cfg env (init_state w) = (Ok, st1)"
    and r1: "run_phases [classify cfg env, check_siblings env, locate_master cfg, check_master,
                         check_slaves cfg env] st1 = (Ok, st6)"
    by blast
  from run_phases_Ok_Cons [OF r1] obtain st2 where
    2: "classify cfg env st1 = (Ok, st2)"
    and r2: "run_phases [check_siblings env, locate_master cfg, check_master,
                         check_slaves cfg env] st2 = (Ok, st6)"
    by blast
  from run_phases_Ok_Cons [OF r2] obtain st3 where
    3: "check_siblings env st2 = (Ok, st3)"
    and r3: "run_phases [locate_master cfg, check_master, check_slaves cfg env] st3 = (Ok, st6)"
    by blast
  from run_phases_Ok_Cons [OF r3] obtain st4 where
    4: "locate_master cfg st3 = (Ok, st4)"
    and r4: "run_phases [check_master, check_slaves cfg env] st4 = (Ok, st6)"
    by blast
  from run_phases_Ok_Cons [OF r4] obtain st5 where
    5: "check_master st4 = (Ok, st5)"
    and r5: "run_phases [check_slaves cfg env] st5 = (Ok, st6)"
    by blast
  from run_phases_Ok_Cons [OF r5] obtain st6' where
    6: "check_slaves cfg env st5 = (Ok, st6')" and "run_phases [] st6' = (Ok, st6)"
    by blast
  then have 6: "check_slaves cfg env st5 = (Ok, st6)" by simp
  have h1: "hostList st1 = Split (hosts cfg) (CHR '','')"
    by (rule parse_flags_hostList [OF 1])
  note c2 = classify_connects [OF 2]
  have e3: "st3 = st2" by (rule check_siblings_same [OF 3])
  note k4 = locate_master_keeps [OF 4]
  have e5: "st5 = st4" by (rule check_master_same [OF 5])
  note k6 = check_slaves_keeps [OF 6]
  have hl: "hostList st6 = hostList st1"
    using c2 e3 k4 e5 k6 by simp
  have tr: "set (trace st2) \<subseteq> set (trace st6)"
    using e3 k4 e5 k6 by blast
  show ?thesis
    using h1 hl c2 tr by auto
qed

text \<open>
  Claim C6, as amended. The test of the preferred master fails fatally exactly when a
  preferred master is set and is not one of the hosts. It is the seventh step of
  \<open>main\<close>: when the flags, the classification, the siblings test, the locator, the test
  for a master and the slaves test have gone through, \<open>main\<close> ends in this fatal error if
  the preferred master is set and missing, and goes on to line 207 otherwise. At that
  point \<open>newServerMonitor\<close> has been called for every host of the (non-empty) host list.
  If an earlier step ends the run, with a fatal error or a panic, that is how \<open>main\<close>
  ends, whatever the preferred master.
\<close>

theorem C6_preferred_master_checked_late:
  "check_prefMaster cfg st =
     (if prefMaster cfg \<noteq> [] \<and> prefMaster cfg \<notin> set (hostList st)
      then (Fatal ''ERROR: Preferred master is not included in the hosts option'', st)
      else (Ok, st))
   \<and> (run_phases [parse_flags cfg env, classify cfg env, check_siblings env,
                   locate_master cfg, check_master, check_slaves cfg env] (init_state w)
         = (Ok, stb) \<longrightarrow>
        main cfg env evs w =
          (if prefMaster cfg \<noteq> [] \<and> prefMaster cfg \<notin> set (hostList stb)
           then (Fatal ''ERROR: Preferred master is not included in the hosts option'', stb)
           else dispatch cfg env evs stb)
        \<and> hostList stb = Split (hosts cfg) (CHR '','')
        \<and> hostList stb \<noteq> []
        \<and> (\<forall>u\<in>set (hostList stb). CallNewServerMonitor u \<in> set (trace stb)))
   \<and> (run_phases [parse_flags cfg env, classify cfg env, check_siblings env,
                   locate_master cfg, check_master, check_slaves cfg env] (init_state w)
         = (r, s) \<and> r \<noteq> Ok \<longrightarrow>
        main cfg env evs w = (r, s))"
proof -
  let ?boot = "[parse_flags cfg env, classify cfg env, check_siblings env,
                locate_master cfg, check_master, check_slaves cfg env]"
  have m: "main cfg env evs w =
             (case run_phases ?boot (init_state w) of
                (Ok, s') \<Rightarrow> run_phases [check_prefMaster cfg, dispatch cfg env evs] s'
              | r \<Rightarrow> r)"
    using run_phases_append [of ?boot "[check_prefMaster cfg, dispatch cfg env evs]" "init_state w"]
    by (simp add: main_def main_phases_def)
  have a: "main cfg env evs w =
          (if prefMaster cfg \<noteq> [] \<and> prefMaster cfg \<notin> set (hostList stb)
           then (Fatal ''ERROR: Preferred master is not included in the hosts option'', stb)
           else dispatch cfg env evs stb)"
    if "run_phases ?boot (init_state w) = (Ok, stb)"
  proof -
    obtain d s' where d: "dispatch cfg env evs stb = (d, s')"
      by (cases "dispatch cfg env evs stb")
    show ?thesis
      unfolding m that by (cases d) (simp_all add: check_prefMaster_iff d)
  qed
  have ne: "Split xs c \<noteq> []" for xs c
    by (induction xs) (auto split: list.splits)
  have b: "main cfg env evs w = (r, s)" if "run_phases ?boot (init_state w) = (r, s) \<and> r \<noteq> Ok"
    unfolding m using that by (cases r) simp_all
  show ?thesis
    using check_prefMaster_iff [of cfg st] a bootstrap_connects [of cfg env w stb] b ne
    by (simp (no_asm_simp))
qed

text \<open>
  Claim C6 as stated fails. With the preferred master \<open>h9\<close>, which is no host, the error
  comes after a connection to each of the three hosts was tried; and when all three
  hosts are down, the same flags end in the panic of Claim C8, not in the fatal error.
\<close>

theorem C6_counterexample:
  "fst (main (ex_cfg_pref ''h9'') (ex_env [] ([], -1)) [] ())
     = Fatal ''ERROR: Preferred master is not included in the hosts option''
   \<and> filter (\<lambda>a. case a of CallNewServerMonitor u \<Rightarrow> True | _ \<Rightarrow> False)
        (trace (snd (main (ex_cfg_pref ''h9'') (ex_env [] ([], -1)) [] ())))
       = [CallNewServerMonitor ''h1'', CallNewServerMonitor ''h2'', CallNewServerMonitor ''h3'']
   \<and> fst (main (ex_cfg_pref ''h9'') (ex_env [''h1'', ''h2'', ''h3''] ([], -1)) [] ())
       = Panic ''runtime error: index out of range''"
  by (simp add: ex_cfg_pref_def ex_defs model_defs index_out_of_range_def)

theorem C6_preferred_master_checked_late_witness:
  "run_phases [parse_flags (ex_cfg_pref ''h9'') (ex_env [] ([], -1)),
               classify (ex_cfg_pref ''h9'') (ex_env [] ([], -1)),
               check_siblings (ex_env [] ([], -1)),
               locate_master (ex_cfg_pref ''h9''), check_master,
               check_slaves (ex_cfg_pref ''h9'') (ex_env [] ([], -1))] (init_state ())
     = (Ok, ex_booted)
   \<and> hostList ex_booted = [''h1'', ''h2'', ''h3'']
   \<and> main (ex_cfg_pref ''h9'') (ex_env [] ([], -1)) [] ()
       = (Fatal ''ERROR: Preferred master is not included in the hosts option'', ex_booted)
   \<and> CallNewServerMonitor ''h3'' \<in> set (trace ex_booted)
   \<and> fst (main (ex_cfg_pref ''h2'') (ex_env [] ([], -1)) [] ()) = Waiting
   \<and> fst (main (ex_cfg_pref []) (ex_env [] ([], -1)) [] ()) = Waiting"
proof -
  let ?env = "ex_env [] ([], -1)"
  have b: "run_phases [parse_flags (ex_cfg_pref ''h9'') ?env, classify (ex_cfg_pref ''h9'') ?env,
                       check_siblings ?env, locate_master (ex_cfg_pref ''h9''), check_master,
                       check_slaves (ex_cfg_pref ''h9'') ?env] (init_state ())
             = (Ok, ex_booted)"
    by (simp add: ex_booted_def ex_cfg_pref_def ex_defs model_defs)
  have h: "hostList ex_booted = [''h1'', ''h2'', ''h3'']"
    by (simp add: ex_booted_def ex_cfg_pref_def ex_defs model_defs)
  have pm: "prefMaster (ex_cfg_pref ''h9'') = ''h9''"
    by (simp add: ex_cfg_pref_def)
  note t = C6_preferred_master_checked_late [where cfg = "ex_cfg_pref ''h9''" and env = ?env
      and w = "()" and stb = ex_booted and evs = "[]", THEN conjunct2,
      THEN conjunct1, THEN mp, OF b]
  have m9: "main (ex_cfg_pref ''h9'') ?env [] ()
              = (Fatal ''ERROR: Preferred master is not included in the hosts option'', ex_booted)"
    using t [THEN conjunct1] by (simp add: pm h)
  have c9: "CallNewServerMonitor ''h3'' \<in> set (trace ex_booted)"
    using t [THEN conjunct2, THEN conjunct2, THEN conjunct2] by (simp add: h)
  have w: "fst (main (ex_cfg_pref ''h2'') ?env [] ()) = Waiting"
    "fst (main (ex_cfg_pref []) ?env [] ()) = Waiting"
    by (simp_all add: ex_cfg_pref_def ex_defs model_defs for_loop_wait)
  show ?thesis
    using b h m9 c9 w by (simp only: simp_thms)
qed

end
